theory Spec2Isabelle
  imports Main
begin

chapter \<open>The embedding\<close>

section \<open>Go strings\<close>

text \<open>
  A Go string is a sequence of bytes; it is modelled as a \<open>string\<close> (a list of
  \<open>char\<close>, one per byte). The functions below are the parts of Go's \<open>strings\<close>
  package that the embedded code calls. \<open>TrimSpace\<close> removes the ASCII white space
  characters (tab, line feed, vertical tab, form feed, carriage return, space); the
  two-byte encodings of the Unicode spaces that Go also removes are outside the model.
\<close>

definition backslash :: string where
  "backslash = [CHR 0x5C]"

definition is_space :: "char \<Rightarrow> bool" where
  "is_space c = (c \<in> set [CHR 0x09, CHR 0x0A, CHR 0x0B, CHR 0x0C, CHR 0x0D, CHR '' ''])"

definition TrimSpace :: "string \<Rightarrow> string" where
  "TrimSpace s = rev (dropWhile is_space (rev (dropWhile is_space s)))"

definition HasPrefix :: "string \<Rightarrow> string \<Rightarrow> bool" where
  "HasPrefix s pre = (take (length pre) s = pre)"

definition HasSuffix :: "string \<Rightarrow> string \<Rightarrow> bool" where
  "HasSuffix s suf = (length suf \<le> length s \<and> drop (length s - length suf) s = suf)"

definition TrimSuffix :: "string \<Rightarrow> string \<Rightarrow> string" where
  "TrimSuffix s suf = (if HasSuffix s suf then take (length s - length suf) s else s)"

section \<open>Joining the lines of a command file\<close>

text \<open>
  \<open>commandFromSlice\<close> (builders source, the last helpers of the file). The \<open>for\<close>
  loop over the lines with the accumulator \<open>cmd\<close> is \<open>joinLines\<close>; the two early
  returns for the empty and the one-element slice come first, as in the source.
\<close>

fun joinLines :: "string \<Rightarrow> string list \<Rightarrow> string" where
  "joinLines cmd [] = cmd"
| "joinLines cmd (line # rest) =
     (let l = TrimSpace line in
      if \<not> HasSuffix l backslash then cmd @ l
      else joinLines (cmd @ TrimSuffix l backslash) rest)"

definition commandFromSlice :: "string list \<Rightarrow> string" where
  "commandFromSlice lines =
     (if length lines = 0 then []
      else if length lines = 1 then lines ! 0
      else joinLines [] lines)"

text \<open>A line continues the command when, once trimmed, it ends in a backslash.\<close>

definition continues :: "string \<Rightarrow> bool" where
  "continues l = HasSuffix l backslash"

definition body :: "string \<Rightarrow> string" where
  "body l = TrimSuffix l backslash"

section \<open>More of Go's strings package\<close>

text \<open>
  \<open>Split\<close> is \<open>strings.Split\<close> for a separator of one byte, the only kind the
  embedded code uses: the result always has one piece more than the string has
  separators. \<open>Contains\<close> is \<open>strings.Contains\<close>.
\<close>

fun Split :: "string \<Rightarrow> char \<Rightarrow> string list" where
  "Split [] sep = [[]]"
| "Split (c # cs) sep =
     (if c = sep then [] # Split cs sep
      else (case Split cs sep of [] \<Rightarrow> [[c]] | p # ps \<Rightarrow> (c # p) # ps))"

definition Contains :: "string \<Rightarrow> string \<Rightarrow> bool" where
  "Contains s sub = list_ex (\<lambda>i. HasPrefix (drop i s) sub) [0..<Suc (length s)]"

section \<open>Errors\<close>

text \<open>
  Every error the embedded code returns, and every run-time panic it can raise, is a
  value of \<open>error\<close>; a function that can fail returns \<open>error + 'a\<close> with \<open>Inl\<close> for
  the failure. \<open>SettingErr\<close> and \<open>Errorf\<close> carry the wrapped Go error, which may be
  \<open>nil\<close> (\<open>None\<close>). \<open>ErrSyntax\<close> and \<open>ErrRange\<close> are the two errors of \<open>strconv\<close> for
  the input they carry. \<open>External\<close> stands for an error produced outside the embedded
  code (the network, the HTML parser, the file system).
\<close>

datatype Builder =
    UnsupportedBuilder | Common | Custom | AmazonChroot | AmazonEBS | AmazonInstance
  | DigitalOcean | Docker | GoogleCompute | Null | OpenStack | ParallelsISO | ParallelsPVM
  | QEMU | VirtualBoxISO | VirtualBoxOVF | VMWareISO | VMWareVMX

datatype error =
    Panic string
  | ErrBuilderNotFound
  | ErrNoCommands
  | RequiredSettingErr string
  | SettingErr string string "error option"
  | BuilderErr string Builder error
  | UnsupportedDistroErr string
  | EmptyPathErr string
  | NotFoundErr string
  | Errorf string "error option"
  | ErrSyntax string
  | ErrRange string
  | External string

section \<open>CentOS release information (package ranchr)\<close>

text \<open>
  The \<open>release\<close> struct with its embedded \<open>iso\<close> struct. \<open>getStringFromURL\<close> performs
  an HTTP GET; what the network answers for a URL is a parameter of the functions that
  call it. \<open>setReleaseNumber\<close> indexes \<open>urlParts[len(urlParts)-4]\<close>, which panics in Go
  when the first line has fewer than four segments.
\<close>

record release =
  BaseURL :: string
  Checksum :: string
  ChecksumType :: string
  Name :: string
  isoURL :: string
  Arch :: string
  Distro :: string
  Image :: string
  Release :: string
  ReleaseFull :: string

definition mirrorlistURL :: "release \<Rightarrow> string" where
  "mirrorlistURL c =
     ''http://mirrorlist.centos.org/?release='' @ Release c @ ''&arch='' @ Arch c @ ''&repo=os''"

definition setReleaseNumber :: "(string \<Rightarrow> error + string) \<Rightarrow> release \<Rightarrow> error + release" where
  "setReleaseNumber getStringFromURL c =
     (case getStringFromURL (mirrorlistURL c) of
        Inl err \<Rightarrow> Inl err
      | Inr page \<Rightarrow>
          (let lines = Split page CHR 0x0A;
               urlParts = Split (lines ! 0) CHR ''/''
           in if length urlParts < 4 then Inl (Panic ''index out of range'')
              else Inr (c\<lparr>ReleaseFull := urlParts ! (length urlParts - 4)\<rparr>)))"

definition setReleaseInfo :: "(string \<Rightarrow> error + string) \<Rightarrow> release \<Rightarrow> error + release" where
  "setReleaseInfo getStringFromURL c =
     (let version = Split (Release c) CHR ''.'' in
      if length version > 1
      then Inr (c\<lparr>ReleaseFull := Release c, Release := version ! 0\<rparr>)
      else setReleaseNumber getStringFromURL c)"


text \<open>
  \<open>randomISOURL\<close>. The parsed HTML document is a tree of nodes; the HTML parser
  (\<open>html.Parse\<close>, an external package) and the helper \<open>trimSuffix\<close>, which is not among
  the sources, are parameters. The closure \<open>f\<close> walks the tree in document order and
  appends, for every \<open>a\<close> element, the value of its first \<open>href\<close> attribute when it
  contains the arch and does not contain \<open>ftp://\<close>. \<open>rand.Intn n\<close> panics for
  \<open>n \<le> 0\<close> and otherwise returns a number below \<open>n\<close>; \<open>draw\<close> is the raw output of the
  random source, so that every number below \<open>n\<close> is returned for some draw.
\<close>

definition isoRedirectURL :: "release \<Rightarrow> string" where
  "isoRedirectURL c =
     ''http://isoredirect.centos.org/centos/'' @ Release c @ ''/isos/'' @ Arch c @ ''/''"

datatype NodeType = ErrorNode | TextNode | DocumentNode | ElementNode | CommentNode | DoctypeNode

datatype Attribute = Attribute (Key: string) (Val: string)

datatype Node = Node (nType: NodeType) (nData: string) (nAttr: "Attribute list") (nChildren: "Node list")

fun hrefOf :: "string \<Rightarrow> Attribute list \<Rightarrow> string list" where
  "hrefOf arch [] = []"
| "hrefOf arch (a # as) =
     (if Key a = ''href''
      then (if Contains (Val a) arch \<and> \<not> Contains (Val a) ''ftp://'' then [Val a] else [])
      else hrefOf arch as)"

fun collectISOURLs :: "string \<Rightarrow> Node \<Rightarrow> string list" where
  "collectISOURLs arch (Node t d attrs cs) =
     (if t = ElementNode \<and> d = ''a'' then hrefOf arch attrs else [])
       @ concat (map (collectISOURLs arch) cs)"

definition Intn :: "int \<Rightarrow> nat \<Rightarrow> error + nat" where
  "Intn n draw =
     (if n \<le> 0 then Inl (Panic ''invalid argument to Intn'') else Inr (draw mod nat n))"

definition pickISOURL :: "string list \<Rightarrow> nat \<Rightarrow> error + string" where
  "pickISOURL isoURLs draw =
     (case Intn (int (length isoURLs) - 1) draw of
        Inl err \<Rightarrow> Inl err
      | Inr i \<Rightarrow> Inr (isoURLs ! i))"

definition randomISOURL ::
  "(string \<Rightarrow> error + string) \<Rightarrow> (string \<Rightarrow> error + Node) \<Rightarrow> (string \<Rightarrow> string \<Rightarrow> string)
     \<Rightarrow> nat \<Rightarrow> release \<Rightarrow> error + string" where
  "randomISOURL getStringFromURL htmlParse trimSuffix draw c =
     (case getStringFromURL (isoRedirectURL c) of
        Inl err \<Rightarrow> Inl err
      | Inr page \<Rightarrow>
          (case htmlParse page of
             Inl err \<Rightarrow> Inl err
           | Inr doc \<Rightarrow>
               (let isoURLs = collectISOURLs (Arch c) doc in
                if length isoURLs < 1 then Inl (Errorf ''no valid iso URLs were found'' None)
                else (case pickISOURL isoURLs draw of
                        Inl err \<Rightarrow> Inl err
                      | Inr u \<Rightarrow> Inr (trimSuffix u [CHR 0x0A] @ Name c)))))"

text \<open>Concrete inputs: a CentOS 7 release, a mirror redirect page and a mirror list.\<close>

definition centos7 :: release where
  "centos7 = \<lparr>BaseURL = [], Checksum = [], ChecksumType = ''sha256'',
     Name = ''CentOS-7.8.2003-x86_64-minimal.iso'', isoURL = [], Arch = ''x86_64'',
     Distro = ''centos'', Image = ''minimal'', Release = ''7'', ReleaseFull = ''7.8.2003''\<rparr>"

definition redirectPage :: "string list \<Rightarrow> Node" where
  "redirectPage hrefs =
     Node DocumentNode [] []
       [Node ElementNode ''html'' []
         [Node ElementNode ''body'' []
           (map (\<lambda>h. Node ElementNode ''a'' [Attribute ''href'' h] [Node TextNode h [] []]) hrefs)]]"

definition mirrorlist :: "string \<Rightarrow> error + string" where
  "mirrorlist u =
     (if u = ''http://mirrorlist.centos.org/?release=7&arch=x86_64&repo=os''
      then Inr (''http://mirror.example.org/centos/7.8.2003/os/x86_64/'' @ [CHR 0x0A]
                @ ''http://mirror.example.net/7.8.2003/os/x86_64/'' @ [CHR 0x0A])
      else Inl (External ''no such host''))"

section \<open>Settings entries (package app)\<close>

text \<open>
  Modelled from the spec: \<open>parseVar\<close>, which is not among the sources. The spec (section
  4.1): parse splits a string of the form \<open>key = value\<close>, white space around \<open>=\<close>
  tolerated, into key and value; a key without a value (\<open>key=\<close> or \<open>key\<close>) is an unset
  marker; parse never fails, bad input yields an empty value.
\<close>

definition parseVar :: "string \<Rightarrow> string \<times> string" where
  "parseVar s =
     (TrimSpace (takeWhile (\<lambda>c. c \<noteq> CHR ''='') s),
      TrimSpace (drop 1 (dropWhile (\<lambda>c. c \<noteq> CHR ''='') s)))"

definition key_of :: "string \<Rightarrow> string" where
  "key_of s = fst (parseVar s)"

definition value_of :: "string \<Rightarrow> string" where
  "value_of s = snd (parseVar s)"

text \<open>
  A settings sequence is semantically a mapping in which the last occurrence of a key
  wins (spec, section 3): \<open>entry_for xs k\<close> is that occurrence.
\<close>

definition entry_for :: "string list \<Rightarrow> string \<Rightarrow> string option" where
  "entry_for xs k = find (\<lambda>e. key_of e = k) (rev xs)"

definition setting :: "string list \<Rightarrow> string \<Rightarrow> string option" where
  "setting xs k = map_option value_of (entry_for xs k)"

text \<open>The keys of a sequence in the order of their first appearance, each once.\<close>

fun first_keys :: "string list \<Rightarrow> string list \<Rightarrow> string list" where
  "first_keys seen [] = []"
| "first_keys seen (e # es) =
     (if key_of e \<in> set seen then first_keys seen es
      else key_of e # first_keys (key_of e # seen) es)"

text \<open>
  Modelled from the spec: \<open>mergeSettingsSlices\<close>, which is not among the sources. The
  spec (section 4.1): merge returns an ordered sequence whose keys are the union of both
  inputs; for each key the value is taken from \<open>new\<close> if present there, else from \<open>old\<close>;
  entries are emitted in the order they first appeared across \<open>old\<close> followed by \<open>new\<close>;
  an unset marker in \<open>new\<close> removes the key, except for the reserved key
  \<open>guest_os_type\<close>. The entry emitted for a key is the winning entry as it was written.
\<close>

definition unset_in :: "string list \<Rightarrow> string \<Rightarrow> bool" where
  "unset_in new k = (setting new k = Some [] \<and> k \<noteq> ''guest_os_type'')"

definition merged_entry :: "string list \<Rightarrow> string list \<Rightarrow> string \<Rightarrow> string list" where
  "merged_entry old new k =
     (case entry_for new k of
        Some e \<Rightarrow> (if unset_in new k then [] else [e])
      | None \<Rightarrow> (case entry_for old k of Some e \<Rightarrow> [e] | None \<Rightarrow> []))"

definition mergeSettingsSlices :: "string list \<Rightarrow> string list \<Rightarrow> string list" where
  "mergeSettingsSlices old new = concat (map (merged_entry old new) (first_keys [] (old @ new)))"

section \<open>Raw templates (package app)\<close>

text \<open>
  A value of Go's \<open>interface{}\<close> as the settings maps and the \<open>Arrays\<close> of a template
  section hold it. The constructors are the dynamic types the embedded code tells apart:
  the untyped \<open>nil\<close>, the scalars, a \<open>[]string\<close> (nil or not), a \<open>[][]string\<close>, a
  \<open>[]interface{}\<close> and a \<open>map[string]interface{}\<close> (as the configuration decoders
  produce them), and a nil slice or map of any type other than \<open>[]string\<close>.
\<close>

datatype ival =
    INil
  | IString string
  | IInt int
  | IBool bool
  | IStrings "string list"
  | IStringsNil
  | IStringss "string list list"
  | IIfaces "ival list"
  | IMap "(string \<times> ival) list"
  | INilTyped

type_synonym settings = "string \<rightharpoonup> ival"

text \<open>
  \<open>TemplateSection\<close>, which \<open>BuilderC\<close> embeds. Go iterates over the \<open>Arrays\<close> map in an
  unspecified order; the model holds the map as the list of its entries in the order of
  the iteration, so that every order is an input.
\<close>

record TemplateSection =
  Type :: string
  Settings :: "string list"
  Arrays :: "(string \<times> ival) list"

text \<open>
  The ISO release object of a raw template is an interface value holding a \<open>*centos\<close>, a
  \<open>*debian\<close> or a \<open>*ubuntu\<close>.
\<close>

datatype releaser = CentosISO release | DebianISO release | UbuntuISO release

text \<open>
  The fields of \<open>RawTemplate\<close> that the embedded code reads or writes. The fields
  \<open>Distro\<close>, \<open>Arch\<close>, \<open>Release\<close> and \<open>Image\<close> carry the prefix \<open>r\<close> here, the plain names
  being fields of the release record.
\<close>

record RawTemplate =
  rDistro :: string
  rArch :: string
  rRelease :: string
  rImage :: string
  BuildName :: string
  SourceDir :: string
  IsExample :: bool
  OSType :: string
  ReleaseISO :: "releaser option"
  Dirs :: "string \<rightharpoonup> string"
  Files :: "string \<rightharpoonup> string"
  Builders :: "string \<rightharpoonup> TemplateSection"

text \<open>
  The functions and methods of the package that the embedded code calls and that are
  not among the sources. They are parameters of the embedding: every theorem about the
  code holds for whatever they compute. A method of the raw template takes the template
  as its first argument. \<open>opProcessCommunicator\<close> returns the prefix together with the
  settings map it has written to, \<open>opISOInfo\<close> the template it has updated.
\<close>

record ops =
  opMergeSettingsSlices :: "string list \<Rightarrow> string list \<Rightarrow> error + string list"
  opMergeSettings :: "TemplateSection \<Rightarrow> string list \<Rightarrow> error + TemplateSection"
  opReplaceVariables :: "RawTemplate \<Rightarrow> string \<Rightarrow> string"
  opProcessCommunicator ::
    "RawTemplate \<Rightarrow> string \<Rightarrow> string list \<Rightarrow> settings \<Rightarrow> error + string \<times> settings"
  opCommandsFromFile :: "RawTemplate \<Rightarrow> string \<Rightarrow> string \<Rightarrow> error + string list"
  opFindSource :: "RawTemplate \<Rightarrow> string \<Rightarrow> string \<Rightarrow> bool \<Rightarrow> error + string"
  opBuildOutPath :: "RawTemplate \<Rightarrow> string \<Rightarrow> string \<Rightarrow> string"
  opBuildTemplateResourcePath :: "RawTemplate \<Rightarrow> string \<Rightarrow> string \<Rightarrow> bool \<Rightarrow> string"
  opISOInfo :: "RawTemplate \<Rightarrow> Builder \<Rightarrow> string list \<Rightarrow> error option \<times> RawTemplate"
  opImageURL :: "release \<Rightarrow> string"
  opMergeKeysFromComponentMaps ::
    "(string \<rightharpoonup> TemplateSection) \<Rightarrow> (string \<rightharpoonup> TemplateSection) \<Rightarrow> string list"
  opMergeArrays :: "TemplateSection \<Rightarrow> (string \<times> ival) list \<Rightarrow> TemplateSection"

text \<open>The table \<open>builders\<close> behind \<open>Builder.String\<close>.\<close>

fun Builder_String :: "Builder \<Rightarrow> string" where
  "Builder_String UnsupportedBuilder = ''unsupported builder''"
| "Builder_String Common = ''common''"
| "Builder_String Custom = ''custom''"
| "Builder_String AmazonChroot = ''amazon-chroot''"
| "Builder_String AmazonEBS = ''amazon-ebs''"
| "Builder_String AmazonInstance = ''amazon-instance''"
| "Builder_String DigitalOcean = ''digitalocean''"
| "Builder_String Docker = ''docker''"
| "Builder_String GoogleCompute = ''googlecompute''"
| "Builder_String Null = ''null''"
| "Builder_String OpenStack = ''openstack''"
| "Builder_String ParallelsISO = ''parallels-iso''"
| "Builder_String ParallelsPVM = ''parallels-pvm''"
| "Builder_String QEMU = ''qemu''"
| "Builder_String VirtualBoxISO = ''virtualbox-iso''"
| "Builder_String VirtualBoxOVF = ''virtualbox-ovf''"
| "Builder_String VMWareISO = ''vmware-iso''"
| "Builder_String VMWareVMX = ''vmware-vmx''"

subsection \<open>updateCommon\<close>

text \<open>
  \<open>updateCommon\<close> returns an error and updates the builders of the template. The local
  \<open>b\<close> is a copy of the common section; the source merges \<open>b.Settings\<close> into \<open>b\<close>.
\<close>

definition updateCommon :: "ops \<Rightarrow> RawTemplate \<Rightarrow> TemplateSection \<Rightarrow> error option \<times> RawTemplate" where
  "updateCommon ops r newB =
     (case Builders r (Builder_String Common) of
        None \<Rightarrow>
          (None, r\<lparr>Builders := (Builders r)(Builder_String Common \<mapsto>
             \<lparr>Type = Type newB, Settings = Settings newB, Arrays = Arrays newB\<rparr>)\<rparr>)
      | Some b \<Rightarrow>
          (case opMergeSettings ops b (Settings b) of
             Inl err \<Rightarrow> (Some err, r)
           | Inr b' \<Rightarrow> (None, r\<lparr>Builders := (Builders r)(Builder_String Common \<mapsto> b')\<rparr>)))"

subsection \<open>setHTTP\<close>

text \<open>
  \<open>setHTTP\<close> writes to the settings map \<open>m\<close> and to the directory ledger \<open>r.Dirs\<close>; the
  model returns the error or the new map, and the template. A \<open>nil\<close> value under
  \<open>http_directory\<close> makes \<open>reflect.TypeOf(v).Kind()\<close> dereference a nil type, a panic.
\<close>

definition setHTTP ::
  "ops \<Rightarrow> RawTemplate \<Rightarrow> string \<Rightarrow> settings \<Rightarrow> (error + settings) \<times> RawTemplate" where
  "setHTTP ops r component m =
     (let v = (case m ''http_directory'' of None \<Rightarrow> IString ''http'' | Some x \<Rightarrow> x) in
      case v of
        IString val \<Rightarrow>
          (case opFindSource ops r val component True of
             Inl err \<Rightarrow> (Inl (Errorf ''setHTTP error: %s'' (Some err)), r)
           | Inr src \<Rightarrow>
               (let r' = (if src \<noteq> []
                          then r\<lparr>Dirs := (Dirs r)(opBuildOutPath ops r [] val \<mapsto> src)\<rparr>
                          else r)
                in (Inr (m(''http_directory'' \<mapsto>
                      IString (opBuildTemplateResourcePath ops r' [] val False))), r')))
      | INil \<Rightarrow> (Inl (Panic ''invalid memory address or nil pointer dereference''), r)
      | _ \<Rightarrow> (Inl (Errorf ''http_directory: expected string was %s'' None), r))"

subsection \<open>createVBoxManage\<close>

text \<open>
  \<open>deepcopy.Copy\<close> returns a value of the dynamic type of its argument, a nil slice for
  a nil slice; the type assertion \<open>.([]string)\<close> on the copy panics for every other
  dynamic type. The function has no error result: \<open>Inl\<close> is the panic.
\<close>

definition vboxManageRow :: "ops \<Rightarrow> RawTemplate \<Rightarrow> string \<Rightarrow> string list" where
  "vboxManageRow ops r v =
     (let (k, vv) = parseVar v;
          k = (if \<not> HasPrefix k ''--'' then ''--'' @ k else k);
          vv = opReplaceVariables ops r vv
      in [''modifyvm'', ''{{.Name}}'', k, vv])"

definition createVBoxManage :: "ops \<Rightarrow> RawTemplate \<Rightarrow> ival \<Rightarrow> error + string list list" where
  "createVBoxManage ops r v =
     (case v of
        IStrings vms \<Rightarrow> Inr (map (vboxManageRow ops r) vms)
      | IStringsNil \<Rightarrow> Inr []
      | _ \<Rightarrow> Inl (Panic ''interface conversion: interface {} is not []string''))"


subsection \<open>The earlier version of updateCommon and setHTTP\<close>

text \<open>
  The sources hold a second, earlier version of the builders file, on the type
  \<open>rawTemplate\<close>. Its \<open>updateCommon\<close> leaves the type of a new common section empty and
  wraps the error of the merge; its \<open>setHTTP\<close> asserts the string type (a panic for any
  other value), resolves through \<open>findComponentSource\<close>, passes the component to the path
  builders and records every source. The helpers are parameters here as well; only the
  builders and the directory ledger of the template are involved.
\<close>

definition updateCommon_rawTemplate ::
  "(TemplateSection \<Rightarrow> string list \<Rightarrow> error + TemplateSection) \<Rightarrow> (string \<rightharpoonup> TemplateSection)
     \<Rightarrow> TemplateSection \<Rightarrow> error option \<times> (string \<rightharpoonup> TemplateSection)" where
  "updateCommon_rawTemplate mergeSettings builders newB =
     (case builders (Builder_String Common) of
        None \<Rightarrow>
          (None, builders(Builder_String Common \<mapsto>
             \<lparr>Type = [], Settings = Settings newB, Arrays = Arrays newB\<rparr>))
      | Some b \<Rightarrow>
          (case mergeSettings b (Settings b) of
             Inl err \<Rightarrow> (Some (Errorf ''ipdate common settings failed: %s'' (Some err)), builders)
           | Inr b' \<Rightarrow> (None, builders(Builder_String Common \<mapsto> b'))))"

definition setHTTP_rawTemplate ::
  "(string \<Rightarrow> string \<Rightarrow> error + string) \<Rightarrow> (string \<Rightarrow> string \<Rightarrow> string) \<Rightarrow> (string \<Rightarrow> string \<Rightarrow> string)
     \<Rightarrow> (string \<rightharpoonup> string) \<Rightarrow> string \<Rightarrow> settings \<Rightarrow> (error + settings) \<times> (string \<rightharpoonup> string)" where
  "setHTTP_rawTemplate findComponentSource buildOutPath buildTemplateResourcePath dirs component m =
     (case (case m ''http_directory'' of None \<Rightarrow> IString ''http'' | Some x \<Rightarrow> x) of
        IString val \<Rightarrow>
          (case findComponentSource component val of
             Inl err \<Rightarrow> (Inl (Errorf ''setHTTP error for %s: %s'' (Some err)), dirs)
           | Inr src \<Rightarrow>
               (Inr (m(''http_directory'' \<mapsto> IString (buildTemplateResourcePath component val))),
                dirs(buildOutPath component val \<mapsto> src)))
      | _ \<Rightarrow> (Inl (Panic ''interface conversion: interface {} is not string''), dirs))"

subsection \<open>The source resolver\<close>

text \<open>
  Modelled from the spec: \<open>findSource\<close>, which is not among the sources (its tests are).
  The spec (section 4.2): the resource is looked for in eleven locations in a fixed
  order and the first that exists is returned; if none exists the call fails with
  not-found; if the path is empty it fails with empty-path; in example mode the search
  is skipped and the relative \<open>component/path\<close> form is returned without checking
  existence; a trailing separator is preserved, and the result gets a trailing separator
  if the resolved entity is a directory. The file system is the function \<open>fs\<close>: \<open>None\<close>
  for a path that does not exist, \<open>Some True\<close> for a directory, \<open>Some False\<close> for a file.
  \<open>joinPath\<close> joins the non-empty elements with the separator, as the tests of the
  resolver show for an empty component.
\<close>

fun joinPath :: "string list \<Rightarrow> string" where
  "joinPath [] = []"
| "joinPath (p # ps) =
     (if p = [] then joinPath ps
      else (case joinPath ps of [] \<Rightarrow> p | q # qs \<Rightarrow> p @ ''/'' @ q # qs))"

definition withSeparator :: "string \<Rightarrow> string" where
  "withSeparator s = (if HasSuffix s ''/'' then s else s @ ''/'')"

definition candidates :: "RawTemplate \<Rightarrow> string \<Rightarrow> string \<Rightarrow> string list" where
  "candidates r p component = map joinPath
     [[SourceDir r, rDistro r, rRelease r, BuildName r, p],
      [SourceDir r, rDistro r, rRelease r, component, p],
      [SourceDir r, rDistro r, rRelease r, rArch r, p],
      [SourceDir r, rDistro r, rRelease r, p],
      [SourceDir r, rDistro r, rArch r, p],
      [SourceDir r, rDistro r, BuildName r, p],
      [SourceDir r, rDistro r, component, p],
      [SourceDir r, rDistro r, p],
      [SourceDir r, component, p],
      [SourceDir r, BuildName r, p],
      [SourceDir r, p]]"

definition findSource ::
  "(string \<Rightarrow> bool option) \<Rightarrow> RawTemplate \<Rightarrow> string \<Rightarrow> string \<Rightarrow> bool \<Rightarrow> error + string" where
  "findSource fs r p component isDir =
     (if p = [] then Inl (EmptyPathErr ''find source'')
      else if IsExample r
      then Inr (if isDir then withSeparator (joinPath [component, p]) else joinPath [component, p])
      else (case find (\<lambda>c. case fs c of None \<Rightarrow> False | Some d \<Rightarrow> True)
                    (candidates r p component) of
              None \<Rightarrow> Inl (NotFoundErr p)
            | Some c \<Rightarrow> Inr (if fs c = Some True then withSeparator c else c)))"

text \<open>Concrete inputs: a template as the tests of the resolver set it up, and a file system.\<close>

definition ubuntuTemplate :: RawTemplate where
  "ubuntuTemplate = \<lparr>rDistro = ''ubuntu'', rArch = ''amd64'', rRelease = ''14.04'',
     rImage = ''server'', BuildName = ''ubuntu_build'', SourceDir = ''src'', IsExample = False,
     OSType = [], ReleaseISO = None, Dirs = Map.empty, Files = Map.empty, Builders = Map.empty\<rparr>"

definition srcTree :: "string \<Rightarrow> bool option" where
  "srcTree p =
     (if p = ''src/ubuntu/http'' then Some True
      else if p = ''src/chef-solo/cookbook1'' then Some True
      else if p = ''src/ubuntu/http/preseed.cfg'' then Some False
      else None)"

text \<open>
  An instance of the parameters, for the concrete evaluations: the merge of the spec,
  no variables to replace, no communicator, no command files, the resolver of the spec
  over \<open>srcTree\<close>, an output tree under \<open>out\<close> without the component, an ISO
  discovery that answers with a fixed Ubuntu release, the merged keys as the names of
  the builders that one of the two maps has, in the order of the table of the builders,
  and a merge of the arrays in which the new array replaces the old one of its name.
\<close>

definition builderNames :: "string list" where
  "builderNames = map Builder_String
     [Common, Custom, AmazonChroot, AmazonEBS, AmazonInstance, DigitalOcean, Docker,
      GoogleCompute, Null, OpenStack, ParallelsISO, ParallelsPVM, QEMU, VirtualBoxISO,
      VirtualBoxOVF, VMWareISO, VMWareVMX]"

definition ubuntuISO :: release where
  "ubuntuISO = \<lparr>BaseURL = ''http://releases.ubuntu.com/'', Checksum = ''0123abcd'',
     ChecksumType = ''sha256'', Name = ''ubuntu-14.04-server-amd64.iso'',
     isoURL = ''http://releases.ubuntu.com/14.04/ubuntu-14.04-server-amd64.iso'',
     Arch = ''amd64'', Distro = ''ubuntu'', Image = ''server'', Release = ''14.04'',
     ReleaseFull = ''14.04''\<rparr>"

definition ops0 :: ops where
  "ops0 = \<lparr>
     opMergeSettingsSlices = (\<lambda>old new. Inr (mergeSettingsSlices old new)),
     opMergeSettings = (\<lambda>b new. Inr (b\<lparr>Settings := mergeSettingsSlices (Settings b) new\<rparr>)),
     opReplaceVariables = (\<lambda>r s. s),
     opProcessCommunicator = (\<lambda>r ID workSlice m. Inr ([], m)),
     opCommandsFromFile = (\<lambda>r name component. Inl (NotFoundErr name)),
     opFindSource = findSource srcTree,
     opBuildOutPath = (\<lambda>r component p. joinPath [''out'', p]),
     opBuildTemplateResourcePath = (\<lambda>r component p isDir. p),
     opISOInfo = (\<lambda>r b workSlice.
        (None, r\<lparr>OSType := ''Ubuntu_64'', ReleaseISO := Some (UbuntuISO ubuntuISO)\<rparr>)),
     opImageURL = isoURL,
     opMergeKeysFromComponentMaps = (\<lambda>old new.
        filter (\<lambda>k. (case old k of None \<Rightarrow> False | Some b \<Rightarrow> True)
                    \<or> (case new k of None \<Rightarrow> False | Some b \<Rightarrow> True)) builderNames),
     opMergeArrays = (\<lambda>b a.
        b\<lparr>Arrays := a @ filter (\<lambda>e. fst e \<notin> set (map fst a)) (Arrays b)\<rparr>)\<rparr>"

definition vboxSettings :: settings where
  "vboxSettings = [''type'' \<mapsto> IString ''virtualbox-iso'', ''headless'' \<mapsto> IBool True]"

section \<open>Builder synthesis (package app)\<close>

subsection \<open>Go's strconv and reflect as the builders use them\<close>

text \<open>
  \<open>strconv.Atoi\<close> for a 64-bit \<open>int\<close>: an optional sign, then one or more decimal
  digits; anything else is a syntax error, a value outside the 64-bit range a range
  error. \<open>strconv.ParseBool\<close> accepts \<open>1 t T TRUE true True\<close> as true and
  \<open>0 f F FALSE false False\<close> as false; the builders discard its error, which leaves
  \<open>false\<close> for every other string.
\<close>

definition isDigit :: "char \<Rightarrow> bool" where
  "isDigit c = (48 \<le> (of_char c :: int) \<and> (of_char c :: int) \<le> 57)"

fun digitsValue :: "string \<Rightarrow> int \<Rightarrow> int" where
  "digitsValue [] acc = acc"
| "digitsValue (c # cs) acc = digitsValue cs (acc * 10 + (of_char c - 48))"

definition Atoi :: "string \<Rightarrow> error + int" where
  "Atoi s =
     (let neg = (s \<noteq> [] \<and> hd s = CHR ''-'');
          ds = (if s \<noteq> [] \<and> (hd s = CHR ''+'' \<or> hd s = CHR ''-'') then tl s else s)
      in if ds = [] \<or> \<not> list_all isDigit ds then Inl (ErrSyntax s)
         else (let n = digitsValue ds 0;
                   i = (if neg then - n else n)
               in if i < - (2 ^ 63) \<or> 2 ^ 63 - 1 < i then Inl (ErrRange s) else Inr i))"

definition ParseBool :: "string \<Rightarrow> bool" where
  "ParseBool v = (v \<in> set [''1'', ''t'', ''T'', ''TRUE'', ''true'', ''True''])"

text \<open>
  \<open>array := deepcopy.Copy(val)\<close> followed by \<open>if !reflect.ValueOf(array).IsNil()\<close>: the
  copy of a nil slice or map is nil and is skipped (\<open>None\<close>), any other slice or map is
  kept, and \<open>IsNil\<close> panics on the untyped nil and on a scalar.
\<close>

fun copyNonNil :: "ival \<Rightarrow> error + ival option" where
  "copyNonNil INil = Inl (Panic ''reflect: call of reflect.Value.IsNil on zero Value'')"
| "copyNonNil (IString s) = Inl (Panic ''reflect: call of reflect.Value.IsNil on string Value'')"
| "copyNonNil (IInt i) = Inl (Panic ''reflect: call of reflect.Value.IsNil on int Value'')"
| "copyNonNil (IBool b) = Inl (Panic ''reflect: call of reflect.Value.IsNil on bool Value'')"
| "copyNonNil IStringsNil = Inr None"
| "copyNonNil INilTyped = Inr None"
| "copyNonNil v = Inr (Some v)"

subsection \<open>Helpers shared by the builders\<close>

definition stringIsCommandFilename :: "string \<Rightarrow> bool" where
  "stringIsCommandFilename s =
     (let parts = Split s CHR ''.'' in
      if length parts < 2 then False
      else if parts ! (length parts - 2) = [] then False
      else HasSuffix (parts ! (length parts - 1)) ''command'')"

text \<open>
  A panic of a callee is not an error value that the caller wraps: it unwinds through
  the caller as it is.
\<close>

definition propagate :: "error \<Rightarrow> error \<Rightarrow> error" where
  "propagate cause wrapped = (case cause of Panic p \<Rightarrow> Panic p | _ \<Rightarrow> wrapped)"

text \<open>
  The merge of the common settings with the settings of the builder, at the head of every
  create function: \<open>workSlice\<close>.
\<close>

definition workSlice :: "ops \<Rightarrow> RawTemplate \<Rightarrow> TemplateSection \<Rightarrow> error + string list" where
  "workSlice ops r b =
     (case Builders r (Builder_String Common) of
        Some common \<Rightarrow> opMergeSettingsSlices ops (Settings common) (Settings b)
      | None \<Rightarrow> Inr (Settings b))"

text \<open>
  The loop \<open>for _, s := range workSlice\<close> with a \<open>switch\<close> that may return an error: the
  body is the function \<open>step\<close> on the state of the loop.
\<close>

fun walk :: "(string \<Rightarrow> 'st \<Rightarrow> error + 'st) \<Rightarrow> string list \<Rightarrow> 'st \<Rightarrow> error + 'st" where
  "walk step [] st = Inr st"
| "walk step (s # rest) st =
     (case step s st of Inl err \<Rightarrow> Inl err | Inr st' \<Rightarrow> walk step rest st')"

subsection \<open>createAmazonChroot\<close>

record chrootState =
  cSettings :: settings
  hasAccessKey :: bool
  hasAmiName :: bool
  hasSecretKey :: bool
  hasSourceAmi :: bool

definition chrootString :: "string \<Rightarrow> string \<Rightarrow> chrootState \<Rightarrow> chrootState" where
  "chrootString k v st = st\<lparr>cSettings := (cSettings st)(k \<mapsto> IString v)\<rparr>"

definition chrootKey :: "(string \<Rightarrow> string) \<Rightarrow> string \<Rightarrow> chrootState \<Rightarrow> error + chrootState" where
  "chrootKey replaceVariables s st =
     (let (k, v) = parseVar s;
          v = replaceVariables v
      in if k = ''access_key'' then Inr ((chrootString k v st)\<lparr>hasAccessKey := True\<rparr>)
         else if k = ''ami_name'' then Inr ((chrootString k v st)\<lparr>hasAmiName := True\<rparr>)
         else if k = ''ami_description'' then Inr (chrootString k v st)
         else if k = ''ami_virtualization_type'' then Inr (chrootString k v st)
         else if k = ''command_wrapper'' then Inr (chrootString k v st)
         else if k = ''device_path'' then Inr (chrootString k v st)
         else if k = ''enhanced_networking''
           then Inr (st\<lparr>cSettings := (cSettings st)(k \<mapsto> IBool (ParseBool v))\<rparr>)
         else if k = ''force_deregister''
           then Inr (st\<lparr>cSettings := (cSettings st)(k \<mapsto> IBool (ParseBool v))\<rparr>)
         else if k = ''mount_path'' then Inr (chrootString k v st)
         else if k = ''root_volume_size''
           then Inl (SettingErr k v (case Atoi v of Inl err \<Rightarrow> Some err | Inr i \<Rightarrow> None))
         else if k = ''secret_key'' then Inr ((chrootString k v st)\<lparr>hasSecretKey := True\<rparr>)
         else if k = ''source_ami'' then Inr ((chrootString k v st)\<lparr>hasSourceAmi := True\<rparr>)
         else Inr st)"

fun chrootArrays :: "(string \<times> ival) list \<Rightarrow> settings \<Rightarrow> error + settings" where
  "chrootArrays [] m = Inr m"
| "chrootArrays ((name, val) # rest) m =
     (if name \<in> set [''ami_groups'', ''ami_product_codes'', ''ami_regions'', ''ami_users'',
                      ''chroot_mounts'', ''copy_files'', ''mount_options'', ''tags'']
      then (case copyNonNil val of
              Inl err \<Rightarrow> Inl err
            | Inr None \<Rightarrow> chrootArrays rest m
            | Inr (Some array) \<Rightarrow> chrootArrays rest (m(name \<mapsto> array)))
      else chrootArrays rest m)"

definition createAmazonChroot :: "ops \<Rightarrow> RawTemplate \<Rightarrow> string \<Rightarrow> error + settings" where
  "createAmazonChroot ops r ID =
     (case Builders r ID of
        None \<Rightarrow> Inl (BuilderErr ID AmazonChroot ErrBuilderNotFound)
      | Some b \<Rightarrow>
          (case workSlice ops r b of
             Inl err \<Rightarrow> Inl err
           | Inr ws \<Rightarrow>
               (case opProcessCommunicator ops r ID ws [''type'' \<mapsto> IString (Builder_String AmazonChroot)] of
                  Inl err \<Rightarrow> Inl (propagate err (BuilderErr ID AmazonChroot err))
                | Inr (prefix, settings) \<Rightarrow>
                    (case walk (chrootKey (opReplaceVariables ops r)) ws
                            \<lparr>cSettings = settings, hasAccessKey = False, hasAmiName = False,
                             hasSecretKey = False, hasSourceAmi = False\<rparr> of
                       Inl err \<Rightarrow> Inl err
                     | Inr st \<Rightarrow>
                         if \<not> hasAccessKey st
                           then Inl (BuilderErr ID AmazonChroot (RequiredSettingErr ''access_key''))
                         else if \<not> hasAmiName st
                           then Inl (BuilderErr ID AmazonChroot (RequiredSettingErr ''ami_name''))
                         else if \<not> hasSecretKey st
                           then Inl (BuilderErr ID AmazonChroot (RequiredSettingErr ''secret_key''))
                         else if \<not> hasSourceAmi st
                           then Inl (BuilderErr ID AmazonChroot (RequiredSettingErr ''source_ami''))
                         else chrootArrays (Arrays b) (cSettings st)))))"

definition chrootTemplate :: "string list \<Rightarrow> RawTemplate" where
  "chrootTemplate extra = ubuntuTemplate\<lparr>Builders := [''amazon-chroot'' \<mapsto>
     \<lparr>Type = ''amazon-chroot'',
      Settings = [''access_key = AKIA'', ''ami_name = feedlot'', ''secret_key = s3cr3t'',
                  ''source_ami = ami-e81d5881''] @ extra,
      Arrays = [(''ami_users'', IStrings [''aws-account-1''])]\<rparr>]\<rparr>"

subsection \<open>createVirtualBoxISO\<close>

text \<open>
  Modelled from the spec: the names of the distros behind \<open>CentOS.String()\<close>,
  \<open>Debian.String()\<close> and \<open>Ubuntu.String()\<close>; the type is not among the sources. The spec
  (section 3) names the variants of the ISO release \<open>centos\<close>, \<open>debian\<close> and \<open>ubuntu\<close>.
\<close>

datatype Distro = CentOS | Debian | Ubuntu

fun Distro_String :: "Distro \<Rightarrow> string" where
  "Distro_String CentOS = ''centos''"
| "Distro_String Debian = ''debian''"
| "Distro_String Ubuntu = ''ubuntu''"

text \<open>
  The local variables of \<open>createVirtualBoxISO\<close> that the loops write: the settings map
  and the flags. \<open>prefix\<close> and \<open>hasCommunicator\<close> are fixed before the first loop.
\<close>

record vbState =
  vSettings :: settings
  hasChecksum :: bool
  hasChecksumType :: bool
  hasISOURL :: bool
  hasUsername :: bool
  hasPassword :: bool
  hasBootCmd :: bool
  bootCmdFile :: string
  guestOSType :: string

definition vbString :: "string \<Rightarrow> string \<Rightarrow> vbState \<Rightarrow> vbState" where
  "vbString k v st = st\<lparr>vSettings := (vSettings st)(k \<mapsto> IString v)\<rparr>"

definition vbInt :: "string \<Rightarrow> string \<Rightarrow> string \<Rightarrow> vbState \<Rightarrow> error + vbState" where
  "vbInt ID k v st =
     (case Atoi v of
        Inl err \<Rightarrow> Inl (BuilderErr ID VirtualBoxISO (SettingErr k v (Some err)))
      | Inr i \<Rightarrow> Inr (st\<lparr>vSettings := (vSettings st)(k \<mapsto> IInt i)\<rparr>))"

definition vbisoKey ::
  "ops \<Rightarrow> RawTemplate \<Rightarrow> string \<Rightarrow> string \<Rightarrow> bool \<Rightarrow> string \<Rightarrow> vbState \<Rightarrow> error + vbState" where
  "vbisoKey ops r ID prefix hasCommunicator s st =
     (let (k, v) = parseVar s;
          v = opReplaceVariables ops r v
      in if k = ''boot_command''
           then Inr (if stringIsCommandFilename v then st\<lparr>bootCmdFile := v\<rparr> else st)
         else if k = ''boot_wait'' then Inr (vbString k v st)
         else if k = ''disk_size'' then vbInt ID k v st
         else if k = ''format'' then Inr (vbString k v st)
         else if k = ''guest_additions_mode'' then Inr (vbString k v st)
         else if k = ''guest_additions_path'' then Inr (vbString k v st)
         else if k = ''guest_additions_sha256'' then Inr (vbString k v st)
         else if k = ''guest_additions_url'' then Inr (vbString k v st)
         else if k = ''guest_os_type'' then Inr ((vbString k v st)\<lparr>guestOSType := v\<rparr>)
         else if k = ''hard_drive_interface'' then Inr (vbString k v st)
         else if k = ''headless''
           then Inr (st\<lparr>vSettings := (vSettings st)(k \<mapsto> IBool (ParseBool v))\<rparr>)
         else if k = ''http_directory'' then Inr (vbString k v st)
         else if k = ''http_port_min'' then vbInt ID k v st
         else if k = ''http_port_max'' then vbInt ID k v st
         else if k = ''iso_checksum'' then Inr ((vbString k v st)\<lparr>hasChecksum := True\<rparr>)
         else if k = ''iso_checksum_type'' then Inr ((vbString k v st)\<lparr>hasChecksumType := True\<rparr>)
         else if k = ''iso_interface'' then Inr (vbString k v st)
         else if k = ''iso_target_path'' then Inr (vbString k v st)
         else if k = ''iso_url'' then Inr ((vbString k v st)\<lparr>hasISOURL := True\<rparr>)
         else if k = ''output_directory'' then Inr (vbString k v st)
         else if k = ''shutdown_command''
           then (if \<not> stringIsCommandFilename v then Inr (vbString k v st)
                 else (case opCommandsFromFile ops r v (Builder_String VirtualBoxISO) of
                         Inl err \<Rightarrow>
                           Inl (propagate err (BuilderErr ID VirtualBoxISO (SettingErr k v (Some err))))
                       | Inr cmds \<Rightarrow>
                           (let cmd = commandFromSlice cmds in
                            if cmd = []
                            then Inl (BuilderErr ID VirtualBoxISO (SettingErr k v (Some ErrNoCommands)))
                            else Inr (vbString k cmd st))))
         else if k = ''shutdown_timeout'' then Inr (vbString k v st)
         else if k = ''ssh_host_port_min''
           then (if prefix = ''winrm'' then Inr st else vbInt ID k v st)
         else if k = ''ssh_host_port_max''
           then (if prefix = ''winrm'' then Inr st else vbInt ID k v st)
         else if k = ''ssh_password''
           then (if hasCommunicator then Inr st else Inr ((vbString k v st)\<lparr>hasPassword := True\<rparr>))
         else if k = ''ssh_username''
           then (if hasCommunicator then Inr st else Inr ((vbString k v st)\<lparr>hasUsername := True\<rparr>))
         else if k = ''virtualbox_version_file'' then Inr (vbString k v st)
         else if k = ''vm_name'' then Inr (vbString k v st)
         else Inr st)"

text \<open>
  The loop over \<open>r.Builders[ID].Arrays\<close>. After the \<open>switch\<close> the cases \<open>boot_command\<close>,
  \<open>export_opts\<close>, \<open>floppy_files\<close> and \<open>iso_urls\<close> reach the copy at the end of the loop
  body, which stores the same copy a second time.
\<close>

definition vbArray :: "string \<Rightarrow> ival \<Rightarrow> (vbState \<Rightarrow> vbState) \<Rightarrow> vbState \<Rightarrow> error + vbState" where
  "vbArray name val flag st =
     (case copyNonNil val of
        Inl err \<Rightarrow> Inl err
      | Inr None \<Rightarrow> Inr st
      | Inr (Some array) \<Rightarrow> Inr (flag (st\<lparr>vSettings := (vSettings st)(name \<mapsto> array)\<rparr>)))"

definition vbisoArray :: "ops \<Rightarrow> RawTemplate \<Rightarrow> string \<times> ival \<Rightarrow> vbState \<Rightarrow> error + vbState" where
  "vbisoArray ops r entry st =
     (let (name, val) = entry in
      if name = ''boot_command'' then vbArray name val (\<lambda>st. st\<lparr>hasBootCmd := True\<rparr>) st
      else if name = ''export_opts'' then vbArray name val id st
      else if name = ''floppy_files'' then vbArray name val id st
      else if name = ''iso_urls''
        then (if hasISOURL st then Inr st
              else vbArray name val (\<lambda>st. st\<lparr>hasISOURL := True\<rparr>) st)
      else if name = ''vboxmanage'' \<or> name = ''vboxmanage_post''
        then (case createVBoxManage ops r val of
                Inl err \<Rightarrow> Inl err
              | Inr rows \<Rightarrow> Inr (st\<lparr>vSettings := (vSettings st)(name \<mapsto> IStringss rows)\<rparr>))
      else Inr st)"

fun vbisoArrays :: "ops \<Rightarrow> RawTemplate \<Rightarrow> (string \<times> ival) list \<Rightarrow> vbState \<Rightarrow> error + vbState" where
  "vbisoArrays ops r [] st = Inr st"
| "vbisoArrays ops r (entry # rest) st =
     (case vbisoArray ops r entry st of
        Inl err \<Rightarrow> Inl err
      | Inr st' \<Rightarrow> vbisoArrays ops r rest st')"

definition vbisoBootCommand :: "ops \<Rightarrow> RawTemplate \<Rightarrow> string \<Rightarrow> vbState \<Rightarrow> error + vbState" where
  "vbisoBootCommand ops r ID st =
     (if \<not> hasBootCmd st \<and> bootCmdFile st \<noteq> []
      then (case opCommandsFromFile ops r (bootCmdFile st) (Builder_String VirtualBoxISO) of
              Inl err \<Rightarrow>
                Inl (propagate err
                  (BuilderErr ID VirtualBoxISO (SettingErr ''boot_command'' (bootCmdFile st) (Some err))))
            | Inr commands \<Rightarrow>
                if length commands = 0
                then Inl (BuilderErr ID VirtualBoxISO
                            (SettingErr ''boot_command'' (bootCmdFile st) (Some ErrNoCommands)))
                else Inr (st\<lparr>vSettings := (vSettings st)(''boot_command'' \<mapsto> IStrings commands)\<rparr>))
      else Inr st)"

text \<open>
  Everything \<open>createVirtualBoxISO\<close> does before it looks at the ISO settings: the lookup
  of the builder, the merge with the common settings, the communicator, the loop over
  the settings, the required user name and password, the HTTP directory, the loop over
  the arrays, the ISO discovery when the OS type of the template is still empty, the
  boot command file and the guest OS type. The template is returned as the call leaves
  it.
\<close>

definition vbisoPrepare :: "ops \<Rightarrow> RawTemplate \<Rightarrow> string \<Rightarrow> (error + vbState) \<times> RawTemplate" where
  "vbisoPrepare ops r ID =
     (case Builders r ID of
        None \<Rightarrow> (Inl (BuilderErr ID VirtualBoxISO ErrBuilderNotFound), r)
      | Some b \<Rightarrow>
     (case workSlice ops r b of
        Inl err \<Rightarrow> (Inl (propagate err (BuilderErr ID VirtualBoxISO err)), r)
      | Inr ws \<Rightarrow>
     (case opProcessCommunicator ops r ID ws [''type'' \<mapsto> IString (Builder_String VirtualBoxISO)] of
        Inl err \<Rightarrow> (Inl (propagate err (BuilderErr ID VirtualBoxISO err)), r)
      | Inr (prefix, settings) \<Rightarrow>
     (case walk (vbisoKey ops r ID prefix (prefix \<noteq> [])) ws
             \<lparr>vSettings = settings, hasChecksum = False, hasChecksumType = False,
              hasISOURL = False,
              hasUsername = (prefix \<noteq> [] \<and> settings (prefix @ ''_username'') \<noteq> None),
              hasPassword = (prefix \<noteq> [] \<and> settings (prefix @ ''_password'') \<noteq> None),
              hasBootCmd = False, bootCmdFile = [], guestOSType = []\<rparr> of
        Inl err \<Rightarrow> (Inl err, r)
      | Inr st \<Rightarrow>
          if \<not> hasUsername st
            then (Inl (BuilderErr ID VirtualBoxISO (RequiredSettingErr (prefix @ ''_username''))), r)
          else if \<not> hasPassword st
            then (Inl (BuilderErr ID VirtualBoxISO (RequiredSettingErr (prefix @ ''_password''))), r)
          else
     (case setHTTP ops r (Builder_String VirtualBoxISO) (vSettings st) of
        (Inl err, r1) \<Rightarrow> (Inl (propagate err (BuilderErr ID VirtualBoxISO err)), r1)
      | (Inr m, r1) \<Rightarrow>
     (case vbisoArrays ops r1 (Arrays b) (st\<lparr>vSettings := m\<rparr>) of
        Inl err \<Rightarrow> (Inl err, r1)
      | Inr st2 \<Rightarrow>
     (case (if OSType r1 = [] then opISOInfo ops r1 VirtualBoxISO ws else (None, r1)) of
        (Some err, r2) \<Rightarrow> (Inl (propagate err (BuilderErr ID VirtualBoxISO err)), r2)
      | (None, r2) \<Rightarrow>
     (case vbisoBootCommand ops r2 ID st2 of
        Inl err \<Rightarrow> (Inl err, r2)
      | Inr st3 \<Rightarrow>
          (Inr (if guestOSType st3 = []
                then st3\<lparr>vSettings := (vSettings st3)(''guest_os_type'' \<mapsto> IString (OSType r2))\<rparr>
                else st3), r2)))))))))"

text \<open>
  The end of \<open>createVirtualBoxISO\<close>: the ISO settings. A type assertion on
  \<open>r.ReleaseISO\<close> panics when the interface is nil or holds another type.
\<close>

definition isoFromRelease :: "ops \<Rightarrow> release \<Rightarrow> settings \<Rightarrow> settings" where
  "isoFromRelease ops rel m =
     m(''iso_url'' \<mapsto> IString (opImageURL ops rel),
       ''iso_checksum'' \<mapsto> IString (Checksum rel),
       ''iso_checksum_type'' \<mapsto> IString (ChecksumType rel))"

definition vbisoResolveISO :: "ops \<Rightarrow> string \<Rightarrow> RawTemplate \<Rightarrow> vbState \<Rightarrow> error + settings" where
  "vbisoResolveISO ops ID r st =
     (if \<not> hasISOURL st
      then (if rDistro r = Distro_String CentOS
              then (case ReleaseISO r of
                      Some (CentosISO c) \<Rightarrow> Inr (isoFromRelease ops c (vSettings st))
                    | _ \<Rightarrow> Inl (Panic ''interface conversion: releaser is not *centos''))
            else if rDistro r = Distro_String Debian
              then (case ReleaseISO r of
                      Some (DebianISO d) \<Rightarrow> Inr (isoFromRelease ops d (vSettings st))
                    | _ \<Rightarrow> Inl (Panic ''interface conversion: releaser is not *debian''))
            else if rDistro r = Distro_String Ubuntu
              then (case ReleaseISO r of
                      Some (UbuntuISO u) \<Rightarrow> Inr (isoFromRelease ops u (vSettings st))
                    | _ \<Rightarrow> Inl (Panic ''interface conversion: releaser is not *ubuntu''))
            else Inl (BuilderErr ID VirtualBoxISO (UnsupportedDistroErr (rDistro r))))
      else if \<not> hasChecksum st
        then Inl (BuilderErr ID VirtualBoxISO (RequiredSettingErr ''iso_checksum''))
      else if \<not> hasChecksumType st
        then Inl (BuilderErr ID VirtualBoxISO (RequiredSettingErr ''iso_checksum_type''))
      else Inr (vSettings st))"

definition createVirtualBoxISO :: "ops \<Rightarrow> RawTemplate \<Rightarrow> string \<Rightarrow> (error + settings) \<times> RawTemplate" where
  "createVirtualBoxISO ops r ID =
     (case vbisoPrepare ops r ID of
        (Inl err, r') \<Rightarrow> (Inl err, r')
      | (Inr st, r') \<Rightarrow> (vbisoResolveISO ops ID r' st, r'))"

text \<open>Concrete inputs: a template with one virtualbox-iso builder and no common section.\<close>

definition vboxTemplate :: "string list \<Rightarrow> RawTemplate" where
  "vboxTemplate isoSettings = ubuntuTemplate\<lparr>Builders :=
     [''virtualbox-iso'' \<mapsto> \<lparr>Type = ''virtualbox-iso'',
        Settings = [''ssh_username = vagrant'', ''ssh_password = vagrant''] @ isoSettings,
        Arrays = [(''vboxmanage'', IStrings [''memory=4096''])]\<rparr>]\<rparr>"

definition vboxBuilder :: "string list \<Rightarrow> TemplateSection" where
  "vboxBuilder isoSettings = \<lparr>Type = ''virtualbox-iso'',
        Settings = [''ssh_username = vagrant'', ''ssh_password = vagrant''] @ isoSettings,
        Arrays = [(''vboxmanage'', IStrings [''memory=4096''])]\<rparr>"

text \<open>The same parameters with an ISO discovery that fails, as when the mirror is unreachable.\<close>

definition opsOffline :: ops where
  "opsOffline = ops0\<lparr>opISOInfo := (\<lambda>r b workSlice. (Some (External ''no such host''), r))\<rparr>"

subsection \<open>createParallelsISO\<close>

text \<open>
  The local variables of \<open>createParallelsISO\<close> that the loops write: the settings map,
  the flags, \<open>isoURL\<close> and \<open>bootCmdFile\<close>. The fields carry the prefix \<open>p\<close> here, the
  plain names being fields of the state of \<open>createVirtualBoxISO\<close>. \<open>prefix\<close> and
  \<open>hasCommunicator\<close> are fixed before the first loop. \<open>errors.New("invalid option")\<close> is
  the value \<open>Errorf ''invalid option'' None\<close>.
\<close>

record prlState =
  pSettings :: settings
  pHasISOChecksum :: bool
  pHasISOChecksumType :: bool
  pHasISOChecksumURL :: bool
  pHasISOURL :: bool
  pHasISOURLs :: bool
  pHasParallelsToolsFlavor :: bool
  pHasUsername :: bool
  pDisableParallelsToolsMode :: bool
  pIsoURL :: string
  pBootCmdFile :: string
  pHasBootCmd :: bool

definition prlString :: "string \<Rightarrow> string \<Rightarrow> prlState \<Rightarrow> prlState" where
  "prlString k v st = st\<lparr>pSettings := (pSettings st)(k \<mapsto> IString v)\<rparr>"

definition prlInt :: "string \<Rightarrow> string \<Rightarrow> string \<Rightarrow> prlState \<Rightarrow> error + prlState" where
  "prlInt ID k v st =
     (case Atoi v of
        Inl err \<Rightarrow> Inl (BuilderErr ID ParallelsISO (SettingErr k v (Some err)))
      | Inr i \<Rightarrow> Inr (st\<lparr>pSettings := (pSettings st)(k \<mapsto> IInt i)\<rparr>))"

definition prlisoKey ::
  "ops \<Rightarrow> RawTemplate \<Rightarrow> string \<Rightarrow> string \<Rightarrow> bool \<Rightarrow> string \<Rightarrow> prlState \<Rightarrow> error + prlState" where
  "prlisoKey ops r ID prefix hasCommunicator s st =
     (let (k, v) = parseVar s;
          v = opReplaceVariables ops r v
      in if k = ''boot_command''
           then Inr (if stringIsCommandFilename v then st\<lparr>pBootCmdFile := v\<rparr> else st)
         else if k = ''boot_wait'' then Inr (prlString k v st)
         else if k = ''disk_size'' then prlInt ID k v st
         else if k = ''guest_os_type'' then Inr (prlString k v st)
         else if k = ''floating_ip'' then Inr (prlString k v st)
         else if k = ''hard_drive_interface'' then Inr (prlString k v st)
         else if k = ''http_directory'' then Inr (prlString k v st)
         else if k = ''http_port_max'' then prlInt ID k v st
         else if k = ''http_port_min'' then prlInt ID k v st
         else if k = ''iso_checksum'' then Inr ((prlString k v st)\<lparr>pHasISOChecksum := True\<rparr>)
         else if k = ''iso_checksum_type''
           then Inr ((prlString k v st)\<lparr>pHasISOChecksumType := True\<rparr>)
         else if k = ''iso_checksum_url''
           then Inr ((prlString k v st)\<lparr>pHasISOChecksumURL := True\<rparr>)
         else if k = ''iso_target_path'' then Inr (prlString k v st)
         else if k = ''iso_url'' then Inr (st\<lparr>pIsoURL := v, pHasISOURL := True\<rparr>)
         else if k = ''output_directory'' then Inr (prlString k v st)
         else if k = ''parallels_tools_flavor''
           then Inr ((prlString k v st)\<lparr>pHasParallelsToolsFlavor := True\<rparr>)
         else if k = ''parallels_tools_guest_path'' then Inr (prlString k v st)
         else if k = ''parallels_tools_guest_mode''
           then (if v = ''disable''
                   then Inr ((prlString k v st)\<lparr>pDisableParallelsToolsMode := True\<rparr>)
                 else if v = ''upload'' \<or> v = ''detach'' then Inr (prlString k v st)
                 else Inl (BuilderErr ID ParallelsISO
                             (SettingErr k v (Some (Errorf ''invalid option'' None)))))
         else if k = ''prlctl_version_file'' then Inr (prlString k v st)
         else if k = ''shutdown_command''
           then (if \<not> stringIsCommandFilename v then Inr (prlString k v st)
                 else (case opCommandsFromFile ops r v (Builder_String ParallelsISO) of
                         Inl err \<Rightarrow>
                           Inl (propagate err (BuilderErr ID ParallelsISO (SettingErr k v (Some err))))
                       | Inr cmds \<Rightarrow>
                           (let cmd = commandFromSlice cmds in
                            if cmd = []
                            then Inl (BuilderErr ID ParallelsISO (SettingErr k v (Some ErrNoCommands)))
                            else Inr (prlString k cmd st))))
         else if k = ''shutdown_timeout'' then Inr (prlString k v st)
         else if k = ''skip_compaction''
           then Inr (st\<lparr>pSettings := (pSettings st)(k \<mapsto> IBool (ParseBool v))\<rparr>)
         else if k = ''ssh_username''
           then (if hasCommunicator \<and> prefix = ''ssh'' then Inr st
                 else Inr ((prlString k v st)\<lparr>pHasUsername := True\<rparr>))
         else if k = ''vm_name'' then Inr (prlString k v st)
         else Inr st)"

text \<open>
  The loop over \<open>r.Builders[ID].Arrays\<close>. \<open>boot_command\<close> and \<open>iso_urls\<close> store the copy
  when the value is not nil, set their flag and continue; \<open>floppy_files\<close>,
  \<open>host_interfaces\<close>, \<open>prlctl\<close> and \<open>prlctl_post\<close> reach the copy at the end of the loop
  body; every other name is skipped.
\<close>

definition prlArray :: "string \<Rightarrow> ival \<Rightarrow> (prlState \<Rightarrow> prlState) \<Rightarrow> prlState \<Rightarrow> error + prlState" where
  "prlArray name val flag st =
     (case copyNonNil val of
        Inl err \<Rightarrow> Inl err
      | Inr None \<Rightarrow> Inr st
      | Inr (Some array) \<Rightarrow> Inr (flag (st\<lparr>pSettings := (pSettings st)(name \<mapsto> array)\<rparr>)))"

definition prlisoArray :: "string \<times> ival \<Rightarrow> prlState \<Rightarrow> error + prlState" where
  "prlisoArray entry st =
     (let (name, val) = entry in
      if name = ''boot_command'' then prlArray name val (\<lambda>st. st\<lparr>pHasBootCmd := True\<rparr>) st
      else if name = ''floppy_files'' then prlArray name val id st
      else if name = ''host_interfaces'' then prlArray name val id st
      else if name = ''iso_urls'' then prlArray name val (\<lambda>st. st\<lparr>pHasISOURLs := True\<rparr>) st
      else if name = ''prlctl'' then prlArray name val id st
      else if name = ''prlctl_post'' then prlArray name val id st
      else Inr st)"

fun prlisoArrays :: "(string \<times> ival) list \<Rightarrow> prlState \<Rightarrow> error + prlState" where
  "prlisoArrays [] st = Inr st"
| "prlisoArrays (entry # rest) st =
     (case prlisoArray entry st of
        Inl err \<Rightarrow> Inl err
      | Inr st' \<Rightarrow> prlisoArrays rest st')"

definition prlisoBootCommand :: "ops \<Rightarrow> RawTemplate \<Rightarrow> string \<Rightarrow> prlState \<Rightarrow> error + prlState" where
  "prlisoBootCommand ops r ID st =
     (if \<not> pHasBootCmd st \<and> pBootCmdFile st \<noteq> []
      then (case opCommandsFromFile ops r (pBootCmdFile st) (Builder_String ParallelsISO) of
              Inl err \<Rightarrow>
                Inl (propagate err
                  (BuilderErr ID ParallelsISO (SettingErr ''boot_command'' (pBootCmdFile st) (Some err))))
            | Inr commands \<Rightarrow>
                if length commands = 0
                then Inl (BuilderErr ID ParallelsISO
                            (SettingErr ''boot_command'' (pBootCmdFile st) (Some ErrNoCommands)))
                else Inr (st\<lparr>pSettings := (pSettings st)(''boot_command'' \<mapsto> IStrings commands)\<rparr>))
      else Inr st)"

text \<open>
  \<open>createParallelsISO\<close> returns the settings map or an error. It reads the template and
  writes nothing to it: there is no call of \<open>setHTTP\<close> in it, and no write to \<open>r.Dirs\<close>.
\<close>

definition createParallelsISO :: "ops \<Rightarrow> RawTemplate \<Rightarrow> string \<Rightarrow> error + settings" where
  "createParallelsISO ops r ID =
     (case Builders r ID of
        None \<Rightarrow> Inl (BuilderErr ID ParallelsISO ErrBuilderNotFound)
      | Some b \<Rightarrow>
     (case workSlice ops r b of
        Inl err \<Rightarrow> Inl (propagate err (BuilderErr ID ParallelsISO err))
      | Inr ws \<Rightarrow>
     (case opProcessCommunicator ops r ID ws [''type'' \<mapsto> IString (Builder_String ParallelsISO)] of
        Inl err \<Rightarrow> Inl (propagate err (BuilderErr ID ParallelsISO err))
      | Inr (prefix, settings) \<Rightarrow>
     (case walk (prlisoKey ops r ID prefix (prefix \<noteq> [])) ws
             \<lparr>pSettings = settings, pHasISOChecksum = False, pHasISOChecksumType = False,
              pHasISOChecksumURL = False, pHasISOURL = False, pHasISOURLs = False,
              pHasParallelsToolsFlavor = False,
              pHasUsername = (prefix \<noteq> [] \<and> settings (prefix @ ''_username'') \<noteq> None),
              pDisableParallelsToolsMode = False, pIsoURL = [], pBootCmdFile = [],
              pHasBootCmd = False\<rparr> of
        Inl err \<Rightarrow> Inl err
      | Inr st \<Rightarrow>
          if \<not> pHasISOChecksum st \<and> \<not> pHasISOChecksumURL st
            then Inl (BuilderErr ID ParallelsISO
                        (RequiredSettingErr ''iso_checksum or iso_checksum_url''))
          else if \<not> pHasISOChecksumType st
            then Inl (BuilderErr ID ParallelsISO (RequiredSettingErr ''iso_checksum_type''))
          else if \<not> pHasParallelsToolsFlavor st \<and> \<not> pDisableParallelsToolsMode st
            then Inl (BuilderErr ID ParallelsISO (RequiredSettingErr ''parallels_tools_flavor''))
          else if \<not> pHasUsername st
            then Inl (BuilderErr ID ParallelsISO
                        (RequiredSettingErr (if prefix = [] then ''ssh_username''
                                             else prefix @ ''_username'')))
          else
     (case prlisoArrays (Arrays b) st of
        Inl err \<Rightarrow> Inl err
      | Inr st2 \<Rightarrow>
     (case prlisoBootCommand ops r ID st2 of
        Inl err \<Rightarrow> Inl err
      | Inr st3 \<Rightarrow>
          if \<not> pHasISOURLs st3 \<and> \<not> pHasISOURL st3
            then Inl (BuilderErr ID ParallelsISO (RequiredSettingErr ''iso_url''))
          else if \<not> pHasISOURLs st3
            then Inr ((pSettings st3)(''iso_url'' \<mapsto> IString (pIsoURL st3)))
          else Inr (pSettings st3)))))))"

text \<open>Concrete inputs: a template with one parallels-iso builder and no common section.\<close>

definition parallelsBuilder :: TemplateSection where
  "parallelsBuilder = \<lparr>Type = ''parallels-iso'',
        Settings = [''iso_checksum = 0123abcd'', ''iso_checksum_type = sha256'',
                    ''iso_url = http://example.org/my.iso'', ''parallels_tools_flavor = lin'',
                    ''ssh_username = vagrant''],
        Arrays = [(''prlctl'', IStringss [[''set'', ''vm'', ''--memsize'', ''1024'']])]\<rparr>"

definition parallelsTemplate :: RawTemplate where
  "parallelsTemplate = ubuntuTemplate\<lparr>Builders := [''parallels-iso'' \<mapsto> parallelsBuilder]\<rparr>"

section \<open>The overlay of the builders of a named build (package app)\<close>





text \<open>A settings sequence has the key \<open>k\<close> when one of its entries parses to that key.\<close>

definition hasKey :: "string list \<Rightarrow> string \<Rightarrow> bool" where
  "hasKey ws k = list_ex (\<lambda>s. key_of s = k) ws"

chapter \<open>Verified properties\<close>

section \<open>Properties of the command join\<close>

lemma HasSuffix_single: "HasSuffix s [c] \<longleftrightarrow> s \<noteq> [] \<and> last s = c"
proof (cases s rule: rev_cases)
  case Nil
  then show ?thesis by (simp add: HasSuffix_def)
next
  case (snoc ys y)
  then show ?thesis by (auto simp add: HasSuffix_def)
qed

lemma joinLines_char:
  "joinLines cmd ls =
     cmd @ concat (map body (takeWhile continues (map TrimSpace ls)))
         @ (case dropWhile continues (map TrimSpace ls) of [] \<Rightarrow> [] | l # _ \<Rightarrow> l)"
proof (induction ls arbitrary: cmd)
  case Nil
  then show ?case by simp
next
  case (Cons line rest)
  show ?case
  proof (cases "continues (TrimSpace line)")
    case True
    then show ?thesis
      using Cons.IH [of "cmd @ body (TrimSpace line)"]
      by (simp add: continues_def body_def Let_def)
  next
    case False
    then show ?thesis by (simp add: continues_def Let_def)
  qed
qed

lemma concat_no_last:
  "\<forall>x \<in> set xs. x = [] \<or> last x \<noteq> c \<Longrightarrow> concat xs = [] \<or> last (concat xs) \<noteq> c"
  by (induction xs) (auto simp add: last_append)

text \<open>
  Claim C5, as the code has it. The empty slice gives the empty string and a slice of
  one line is returned as it is: not trimmed, a trailing backslash kept. For two or more
  lines every line is trimmed, each continuation line loses exactly one trailing
  backslash and is concatenated, and the first line without a trailing backslash is
  appended whole and ends the command, the lines after it being ignored. When all of the
  (two or more) lines end in a backslash the result is the concatenation of the trimmed
  lines each without its last backslash; that result has no trailing backslash provided
  no trimmed line ends in two backslashes.
\<close>

theorem commandFromSlice_join:
  "commandFromSlice [] = []
   \<and> commandFromSlice [l] = l
   \<and> (2 \<le> length lines \<longrightarrow>
        commandFromSlice lines =
          concat (map body (takeWhile continues (map TrimSpace lines)))
            @ (case dropWhile continues (map TrimSpace lines) of [] \<Rightarrow> [] | x # _ \<Rightarrow> x))
   \<and> (2 \<le> length lines \<and> (\<forall>x \<in> set lines. continues (TrimSpace x)) \<longrightarrow>
        commandFromSlice lines = concat (map (\<lambda>x. body (TrimSpace x)) lines))
   \<and> (2 \<le> length lines
        \<and> (\<forall>x \<in> set lines. continues (TrimSpace x) \<and> \<not> continues (body (TrimSpace x))) \<longrightarrow>
        \<not> HasSuffix (commandFromSlice lines) backslash)"
proof -
  have one: "commandFromSlice [] = []" "commandFromSlice [l] = l"
    by (simp_all add: commandFromSlice_def)
  have gen: "commandFromSlice lines =
          concat (map body (takeWhile continues (map TrimSpace lines)))
            @ (case dropWhile continues (map TrimSpace lines) of [] \<Rightarrow> [] | x # _ \<Rightarrow> x)"
    if "2 \<le> length lines"
    using that joinLines_char [of "[]" lines] by (simp add: commandFromSlice_def)
  have all: "commandFromSlice lines = concat (map (\<lambda>x. body (TrimSpace x)) lines)"
    if len: "2 \<le> length lines" and c: "\<forall>x \<in> set lines. continues (TrimSpace x)"
  proof -
    from c have tw: "takeWhile continues (map TrimSpace lines) = map TrimSpace lines"
      by (simp add: takeWhile_eq_all_conv)
    from c have dw: "dropWhile continues (map TrimSpace lines) = []"
      by simp
    show ?thesis unfolding gen [OF len] tw dw by (simp add: comp_def)
  qed
  have nobs: "\<not> HasSuffix (commandFromSlice lines) backslash"
    if len: "2 \<le> length lines"
      and c: "\<forall>x \<in> set lines. continues (TrimSpace x) \<and> \<not> continues (body (TrimSpace x))"
  proof -
    from c have eq: "commandFromSlice lines = concat (map (\<lambda>x. body (TrimSpace x)) lines)"
      using all [OF len] by simp
    from c have "\<forall>y \<in> set (map (\<lambda>x. body (TrimSpace x)) lines). y = [] \<or> last y \<noteq> CHR 0x5C"
      by (auto simp add: continues_def backslash_def HasSuffix_single)
    then have "concat (map (\<lambda>x. body (TrimSpace x)) lines) = []
        \<or> last (concat (map (\<lambda>x. body (TrimSpace x)) lines)) \<noteq> CHR 0x5C"
      by (rule concat_no_last)
    with eq show ?thesis
      by (auto simp add: backslash_def HasSuffix_single)
  qed
  from one gen all nobs show ?thesis by blast
qed

theorem commandFromSlice_join_witness:
  "continues (TrimSpace ('' echo a '' @ backslash))
   \<and> continues (TrimSpace (''b'' @ backslash @ '' ''))
   \<and> commandFromSlice ['' echo a '' @ backslash, ''b'' @ backslash @ '' ''] = ''echo a b''
   \<and> \<not> HasSuffix (commandFromSlice ['' echo a '' @ backslash, ''b'' @ backslash @ '' '']) backslash"
  using commandFromSlice_join [of "[]" "['' echo a '' @ backslash, ''b'' @ backslash @ '' '']"]
  by (simp add: continues_def body_def TrimSpace_def HasSuffix_def TrimSuffix_def
      backslash_def is_space_def)

text \<open>
  The claim as it is written fails on two inputs. A file of one line ending in a
  backslash comes back unchanged, backslash included. And for two lines that both end in
  a backslash, the second in two of them, the result still ends in a backslash.
\<close>

theorem commandFromSlice_trailing_backslash_counterexample:
  "continues (TrimSpace (''halt'' @ backslash))
   \<and> commandFromSlice [''halt'' @ backslash] = ''halt'' @ backslash
   \<and> commandFromSlice [''halt'' @ backslash] \<noteq> body (TrimSpace (''halt'' @ backslash))
   \<and> HasSuffix (commandFromSlice [''halt'' @ backslash]) backslash
   \<and> continues (TrimSpace (''a'' @ backslash))
   \<and> continues (TrimSpace (''b'' @ backslash @ backslash))
   \<and> commandFromSlice [''a'' @ backslash, ''b'' @ backslash @ backslash] = ''ab'' @ backslash
   \<and> HasSuffix (commandFromSlice [''a'' @ backslash, ''b'' @ backslash @ backslash]) backslash"
  by (simp add: commandFromSlice_def continues_def body_def TrimSpace_def HasSuffix_def
      TrimSuffix_def backslash_def is_space_def)

section \<open>CentOS release resolution\<close>

lemma Split_nonempty: "Split s sep \<noteq> []"
  by (induction s) (auto split: list.splits)

lemma Split_hd: "Split s sep ! 0 = takeWhile (\<lambda>x. x \<noteq> sep) s"
  by (induction s) (auto split: list.splits simp: Split_nonempty)

lemma Split_length: "length (Split s sep) = Suc (length (filter (\<lambda>x. x = sep) s))"
  by (induction s) (auto split: list.splits simp: Split_nonempty)

lemma Split_many: "Suc 0 < length (Split s sep) \<longleftrightarrow> sep \<in> set s"
  by (auto simp add: Split_length filter_empty_conv)

text \<open>
  Claim C6. For CentOS: a release that contains a dot (\<open>N.M\<close>) is adopted as the
  full release and the release becomes the part before the first dot. A release without
  a dot (a bare major version) makes the code fetch the mirror list for that release and
  arch; the first line of the page is split on \<open>/\<close> and the fourth segment from the end
  becomes the full release, the release staying as it was. (The segment exists when the
  first line has at least four segments; the lemmas after the theorem give the other
  outcomes.)
\<close>

theorem centos_setReleaseInfo:
  "(CHR ''.'' \<in> set (Release c) \<longrightarrow>
      setReleaseInfo getStringFromURL c =
        Inr (c\<lparr>ReleaseFull := Release c,
               Release := takeWhile (\<lambda>x. x \<noteq> CHR ''.'') (Release c)\<rparr>))
   \<and> (CHR ''.'' \<notin> set (Release c)
        \<and> getStringFromURL (''http://mirrorlist.centos.org/?release='' @ Release c
              @ ''&arch='' @ Arch c @ ''&repo=os'') = Inr page
        \<and> 4 \<le> length (Split (takeWhile (\<lambda>x. x \<noteq> CHR 0x0A) page) CHR ''/'') \<longrightarrow>
      setReleaseInfo getStringFromURL c =
        Inr (c\<lparr>ReleaseFull :=
               rev (Split (takeWhile (\<lambda>x. x \<noteq> CHR 0x0A) page) CHR ''/'') ! 3\<rparr>))"
proof (intro conjI impI)
  assume "CHR ''.'' \<in> set (Release c)"
  then have "1 < length (Split (Release c) CHR ''.'')"
    by (simp add: Split_many)
  then show "setReleaseInfo getStringFromURL c =
        Inr (c\<lparr>ReleaseFull := Release c,
               Release := takeWhile (\<lambda>x. x \<noteq> CHR ''.'') (Release c)\<rparr>)"
    by (simp add: setReleaseInfo_def Split_hd)
next
  let ?parts = "Split (takeWhile (\<lambda>x. x \<noteq> CHR 0x0A) page) CHR ''/''"
  assume a: "CHR ''.'' \<notin> set (Release c)
        \<and> getStringFromURL (''http://mirrorlist.centos.org/?release='' @ Release c
              @ ''&arch='' @ Arch c @ ''&repo=os'') = Inr page
        \<and> 4 \<le> length ?parts"
  then have one: "\<not> 1 < length (Split (Release c) CHR ''.'')"
    by (simp add: Split_many)
  from a have nth: "rev ?parts ! 3 = ?parts ! (length ?parts - 4)"
    by (simp add: rev_nth)
  from a one show "setReleaseInfo getStringFromURL c = Inr (c\<lparr>ReleaseFull := rev ?parts ! 3\<rparr>)"
    unfolding nth
    by (simp add: setReleaseInfo_def setReleaseNumber_def mirrorlistURL_def Split_hd Let_def)
qed

theorem centos_setReleaseInfo_witness:
  "setReleaseInfo mirrorlist (centos7\<lparr>Release := ''7.8'', ReleaseFull := []\<rparr>)
     = Inr (centos7\<lparr>Release := ''7'', ReleaseFull := ''7.8''\<rparr>)
   \<and> setReleaseInfo mirrorlist (centos7\<lparr>ReleaseFull := []\<rparr>) = Inr centos7"
  using centos_setReleaseInfo [of "centos7\<lparr>Release := ''7.8'', ReleaseFull := []\<rparr>" mirrorlist]
    centos_setReleaseInfo [of "centos7\<lparr>ReleaseFull := []\<rparr>" mirrorlist
      "''http://mirror.example.org/centos/7.8.2003/os/x86_64/'' @ [CHR 0x0A]
                @ ''http://mirror.example.net/7.8.2003/os/x86_64/'' @ [CHR 0x0A]"]
  by (simp add: centos7_def mirrorlist_def)


lemma setReleaseInfo_fetch_fails:
  "CHR ''.'' \<notin> set (Release c) \<Longrightarrow> getStringFromURL (mirrorlistURL c) = Inl err
     \<Longrightarrow> setReleaseInfo getStringFromURL c = Inl err"
  using Split_many [of "Release c" "CHR ''.''"]
  by (simp add: setReleaseInfo_def setReleaseNumber_def)

lemma setReleaseInfo_short_line_panics:
  "CHR ''.'' \<notin> set (Release c) \<Longrightarrow> getStringFromURL (mirrorlistURL c) = Inr page
     \<Longrightarrow> length (Split (takeWhile (\<lambda>x. x \<noteq> CHR 0x0A) page) CHR ''/'') < 4
     \<Longrightarrow> setReleaseInfo getStringFromURL c = Inl (Panic ''index out of range'')"
  using Split_many [of "Release c" "CHR ''.''"]
  by (simp add: setReleaseInfo_def setReleaseNumber_def Split_hd Let_def)

section \<open>The random choice of a CentOS mirror\<close>

lemma Intn_below:
  assumes "0 < n"
  shows "\<exists>i. Intn n draw = Inr i \<and> int i < n"
proof -
  from assms have "draw mod nat n < nat n" by simp
  with assms have "int (draw mod nat n) < n" by linarith
  with assms show ?thesis by (simp add: Intn_def)
qed

lemma Intn_onto: "i < n \<Longrightarrow> Intn (int n) i = Inr i"
  by (simp add: Intn_def)

lemma pickISOURL_single: "pickISOURL [u] draw = Inl (Panic ''invalid argument to Intn'')"
  by (simp add: pickISOURL_def Intn_def)

lemma pickISOURL_index:
  assumes "2 \<le> length isoURLs"
  shows "\<exists>i. i < length isoURLs - 1 \<and> pickISOURL isoURLs draw = Inr (isoURLs ! i)"
proof -
  from assms have pos: "0 < length isoURLs - 1" by simp
  from assms have "Intn (int (length isoURLs) - 1) draw = Inr (draw mod (length isoURLs - 1))"
    by (simp add: Intn_def nat_diff_distrib')
  moreover from pos have "draw mod (length isoURLs - 1) < length isoURLs - 1"
    by simp
  ultimately show ?thesis by (auto simp add: pickISOURL_def)
qed

lemma pickISOURL_never_last:
  assumes "2 \<le> length isoURLs" and "distinct isoURLs"
  shows "pickISOURL isoURLs draw \<noteq> Inr (last isoURLs)"
proof -
  from pickISOURL_index [OF assms(1)] obtain i where
    i: "i < length isoURLs - 1" and p: "pickISOURL isoURLs draw = Inr (isoURLs ! i)"
    by blast
  from assms(1) have "last isoURLs = isoURLs ! (length isoURLs - 1)"
    by (cases isoURLs rule: rev_cases) (simp_all add: nth_append)
  moreover from i assms(2) have "isoURLs ! i \<noteq> isoURLs ! (length isoURLs - 1)"
    by (simp add: nth_eq_iff_index_eq)
  ultimately show ?thesis using p by simp
qed

text \<open>
  Claim C3 says that for every non-empty list of candidates the choice is defined and
  that every candidate, the last one included, can be chosen. The code calls
  \<open>rand.Intn(len(isoURLs)-1)\<close>. With one candidate on the redirect page that is
  \<open>rand.Intn(0)\<close>, which panics whatever the random source draws; with two candidates the
  second is never chosen.
\<close>

theorem randomISOURL_one_candidate_panics:
  "collectISOURLs (Arch centos7)
       (redirectPage [''http://m1.example.org/7/isos/x86_64/'',
                      ''ftp://m2.example.org/7/isos/x86_64/'']) = [''http://m1.example.org/7/isos/x86_64/'']
   \<and> randomISOURL (\<lambda>u. Inr [])
       (\<lambda>p. Inr (redirectPage [''http://m1.example.org/7/isos/x86_64/'',
                                 ''ftp://m2.example.org/7/isos/x86_64/'']))
       TrimSuffix draw centos7
     = Inl (Panic ''invalid argument to Intn'')"
  by (simp add: randomISOURL_def redirectPage_def centos7_def Contains_def HasPrefix_def
      pickISOURL_def Intn_def)

lemma randomISOURL_two_candidates_first_only:
  "randomISOURL (\<lambda>u. Inr [])
       (\<lambda>p. Inr (redirectPage [''http://m1.example.org/7/isos/x86_64/'',
                                 ''http://m4.example.org/7/isos/x86_64/'']))
       TrimSuffix draw centos7
     = Inr ''http://m1.example.org/7/isos/x86_64/CentOS-7.8.2003-x86_64-minimal.iso''"
  by (simp add: randomISOURL_def redirectPage_def centos7_def Contains_def HasPrefix_def
      pickISOURL_def Intn_def TrimSuffix_def HasSuffix_def)

section \<open>The merge of two settings sequences\<close>

lemma find_SomeD: "find P xs = Some x \<Longrightarrow> x \<in> set xs \<and> P x"
  by (induction xs) (auto split: if_splits)

lemma entry_for_Some: "entry_for xs k = Some e \<Longrightarrow> e \<in> set xs \<and> key_of e = k"
  using find_SomeD [of "\<lambda>e. key_of e = k" "rev xs" e] by (simp add: entry_for_def)

lemma entry_for_None: "entry_for xs k = None \<longleftrightarrow> k \<notin> key_of ` set xs"
  by (auto simp add: entry_for_def find_None_iff)

lemma entry_for_distinct:
  assumes "distinct (map key_of xs)" and "e \<in> set xs"
  shows "entry_for xs (key_of e) = Some e"
proof -
  from assms(2) have "entry_for xs (key_of e) \<noteq> None"
    by (simp add: entry_for_None)
  then obtain e' where e': "entry_for xs (key_of e) = Some e'" by blast
  then have "e' \<in> set xs" and "key_of e' = key_of e"
    by (simp_all add: entry_for_Some)
  moreover from assms(1) have "inj_on key_of (set xs)"
    by (simp add: distinct_map)
  ultimately have "e' = e" using assms(2) by (simp add: inj_on_def)
  with e' show ?thesis by simp
qed

lemma set_first_keys: "set (first_keys seen xs) = key_of ` set xs - set seen"
  by (induction xs arbitrary: seen) auto

lemma distinct_first_keys: "distinct (first_keys seen xs)"
  by (induction xs arbitrary: seen) (auto simp add: set_first_keys)

lemma keys_merged_entry:
  assumes "k \<in> key_of ` set (old @ new)"
  shows "map key_of (merged_entry old new k) = (if unset_in new k then [] else [k])"
proof (cases "entry_for new k")
  case None
  then have "k \<notin> key_of ` set new" by (simp add: entry_for_None)
  with assms have "entry_for old k \<noteq> None" by (auto simp add: entry_for_None)
  then obtain e where e: "entry_for old k = Some e" by blast
  then have "key_of e = k" by (simp add: entry_for_Some)
  with None e show ?thesis by (simp add: merged_entry_def unset_in_def setting_def)
next
  case (Some e)
  then have "key_of e = k" by (simp add: entry_for_Some)
  with Some show ?thesis by (simp add: merged_entry_def)
qed

lemma concat_keys_filter:
  "\<forall>k \<in> set ks. map key_of (f k) = (if P k then [] else [k])
     \<Longrightarrow> map key_of (concat (map f ks)) = filter (\<lambda>k. \<not> P k) ks"
  by (induction ks) auto

lemma merge_keys:
  "map key_of (mergeSettingsSlices old new)
     = filter (\<lambda>k. \<not> unset_in new k) (first_keys [] (old @ new))"
  unfolding mergeSettingsSlices_def
  by (rule concat_keys_filter) (simp add: keys_merged_entry set_first_keys)

lemma merge_distinct: "distinct (map key_of (mergeSettingsSlices old new))"
  by (simp add: merge_keys distinct_first_keys)

lemma merge_member:
  "e \<in> set (mergeSettingsSlices old new)
     \<longleftrightarrow> (\<exists>k \<in> key_of ` set (old @ new). e \<in> set (merged_entry old new k))"
  by (auto simp add: mergeSettingsSlices_def set_first_keys)

lemma merge_setting:
  "setting (mergeSettingsSlices old new) k =
     (if unset_in new k then None
      else (case setting new k of Some v \<Rightarrow> Some v | None \<Rightarrow> setting old k))"
proof (cases "unset_in new k")
  case True
  then have "k \<notin> set (map key_of (mergeSettingsSlices old new))"
    by (simp add: merge_keys)
  then have "entry_for (mergeSettingsSlices old new) k = None"
    by (simp add: entry_for_None)
  with True show ?thesis by (simp add: setting_def)
next
  case False
  show ?thesis
  proof (cases "k \<in> key_of ` set (old @ new)")
    case inkeys: True
    define w where "w = (case entry_for new k of Some e \<Rightarrow> e | None \<Rightarrow> the (entry_for old k))"
    have single: "merged_entry old new k = [w]"
    proof (cases "entry_for new k")
      case None
      then have "k \<notin> key_of ` set new" by (simp add: entry_for_None)
      with inkeys have "entry_for old k \<noteq> None" by (auto simp add: entry_for_None)
      with None show ?thesis by (auto simp add: merged_entry_def w_def)
    next
      case (Some e)
      with False show ?thesis by (simp add: merged_entry_def w_def)
    qed
    from keys_merged_entry [OF inkeys] False single have kw: "key_of w = k" by simp
    from inkeys single have "w \<in> set (mergeSettingsSlices old new)"
      unfolding merge_member by (intro bexI [of _ k]) simp_all
    then have "entry_for (mergeSettingsSlices old new) (key_of w) = Some w"
      by (rule entry_for_distinct [OF merge_distinct])
    with kw have "setting (mergeSettingsSlices old new) k = Some (value_of w)"
      by (simp add: setting_def)
    moreover have "(case setting new k of Some v \<Rightarrow> Some v | None \<Rightarrow> setting old k) = Some (value_of w)"
    proof (cases "entry_for new k")
      case None
      then have "k \<notin> key_of ` set new" by (simp add: entry_for_None)
      with inkeys have "entry_for old k \<noteq> None" by (auto simp add: entry_for_None)
      with None show ?thesis by (auto simp add: setting_def w_def)
    next
      case (Some e)
      then show ?thesis by (simp add: setting_def w_def)
    qed
    ultimately show ?thesis using False by simp
  next
    case nokey: False
    then have "k \<notin> set (map key_of (mergeSettingsSlices old new))"
      by (simp add: merge_keys set_first_keys)
    then have "entry_for (mergeSettingsSlices old new) k = None"
      by (simp add: entry_for_None)
    moreover from nokey have "entry_for new k = None" "entry_for old k = None"
      by (auto simp add: entry_for_None)
    ultimately show ?thesis using False by (simp add: setting_def)
  qed
qed

text \<open>
  Claim C1, on the merge of the spec. For all settings sequences \<open>old\<close> and \<open>new\<close> and
  every key \<open>k\<close>: when the entry of \<open>new\<close> for \<open>k\<close> is an unset marker and \<open>k\<close> is not
  \<open>guest_os_type\<close>, the merge has no entry for \<open>k\<close>; otherwise the merge gives \<open>k\<close> the
  value it has in \<open>new\<close> when \<open>new\<close> contains \<open>k\<close>, else the value it has in \<open>old\<close> when
  \<open>old\<close> contains \<open>k\<close>, else none. No key occurs twice in the result, and the keys of the
  result are the keys of \<open>old\<close> followed by \<open>new\<close> in the order of their first
  appearance, without those removed by an unset marker.
\<close>

theorem mergeSettingsSlices_merge:
  "setting (mergeSettingsSlices old new) k =
     (if unset_in new k then None
      else (case setting new k of Some v \<Rightarrow> Some v | None \<Rightarrow> setting old k))
   \<and> distinct (map key_of (mergeSettingsSlices old new))
   \<and> map key_of (mergeSettingsSlices old new)
       = filter (\<lambda>k. \<not> unset_in new k) (first_keys [] (old @ new))"
  by (intro conjI merge_setting merge_distinct merge_keys)

theorem mergeSettingsSlices_merge_witness:
  "setting (mergeSettingsSlices [''a = 1'', ''b=2'', ''c = 3''] [''d=4'', ''b = 5'', ''c='', ''d=6'']) ''b''
     = Some ''5''
   \<and> setting (mergeSettingsSlices [''a = 1'', ''b=2'', ''c = 3''] [''d=4'', ''b = 5'', ''c='', ''d=6'']) ''c''
     = None
   \<and> map key_of (mergeSettingsSlices [''a = 1'', ''b=2'', ''c = 3''] [''d=4'', ''b = 5'', ''c='', ''d=6''])
     = [''a'', ''b'', ''d'']"
  using mergeSettingsSlices_merge [of "[''a = 1'', ''b=2'', ''c = 3'']"
      "[''d=4'', ''b = 5'', ''c='', ''d=6'']" "''b''"]
    mergeSettingsSlices_merge [of "[''a = 1'', ''b=2'', ''c = 3'']"
      "[''d=4'', ''b = 5'', ''c='', ''d=6'']" "''c''"]
  by (simp add: unset_in_def setting_def entry_for_def key_of_def value_of_def parseVar_def
      TrimSpace_def is_space_def)

text \<open>
  The claim as it is written gives every key of \<open>new\<close> the value it has in \<open>new\<close>, and has
  every key exactly once in the result. An unset marker breaks both: \<open>ssh_port\<close> is a key
  of \<open>old\<close> and of \<open>new\<close> and the merge has no entry for it.
\<close>

theorem mergeSettingsSlices_unset_counterexample:
  "setting [''ssh_port = 22''] ''ssh_port'' = Some ''22''
   \<and> setting [''ssh_port =''] ''ssh_port'' = Some []
   \<and> mergeSettingsSlices [''ssh_port = 22''] [''ssh_port =''] = []
   \<and> setting (mergeSettingsSlices [''ssh_port = 22''] [''ssh_port ='']) ''ssh_port'' = None"
  by (simp add: mergeSettingsSlices_def merged_entry_def unset_in_def setting_def entry_for_def
      key_of_def value_of_def parseVar_def TrimSpace_def is_space_def)

section \<open>The source resolver in example mode\<close>

lemma joinPath_pair:
  "p \<noteq> [] \<Longrightarrow> joinPath [component, p] = (if component = [] then p else component @ ''/'' @ p)"
  by (cases p) simp_all

text \<open>
  Claim C8, on the resolver of the spec. In example mode and for a non-empty path the
  resolver returns the component, a separator and the path (the path alone when the
  component is empty), with a trailing separator when the caller flags a directory; the
  result does not depend on the file system. An empty path fails with the empty-path
  error, in example mode as in any other.
\<close>

theorem findSource_example:
  "(IsExample r \<and> p \<noteq> [] \<longrightarrow>
      findSource fs r p component isDir =
        Inr ((if component = [] then p else component @ ''/'' @ p)
             @ (if isDir \<and> \<not> HasSuffix p ''/'' then ''/'' else [])))
   \<and> (IsExample r \<longrightarrow> findSource fs r p component isDir = findSource fs' r p component isDir)
   \<and> findSource fs r [] component isDir = Inl (EmptyPathErr ''find source'')"
proof (intro conjI impI)
  assume a: "IsExample r \<and> p \<noteq> []"
  then have ne: "p \<noteq> []" by simp
  have jp: "joinPath [component, p] = (if component = [] then p else component @ ''/'' @ p)"
    by (rule joinPath_pair [OF ne])
  from ne have "HasSuffix (if component = [] then p else component @ ''/'' @ p) ''/'' = HasSuffix p ''/''"
    by (simp add: HasSuffix_single)
  with a jp show "findSource fs r p component isDir =
        Inr ((if component = [] then p else component @ ''/'' @ p)
             @ (if isDir \<and> \<not> HasSuffix p ''/'' then ''/'' else []))"
    by (simp add: findSource_def withSeparator_def del: joinPath.simps)
next
  assume "IsExample r"
  then show "findSource fs r p component isDir = findSource fs' r p component isDir"
    by (simp add: findSource_def)
next
  show "findSource fs r [] component isDir = Inl (EmptyPathErr ''find source'')"
    by (simp add: findSource_def)
qed

theorem findSource_example_witness:
  "findSource srcTree (ubuntuTemplate\<lparr>IsExample := True\<rparr>) ''cookbook1'' ''chef-solo'' True
     = Inr ''chef-solo/cookbook1/''
   \<and> findSource srcTree (ubuntuTemplate\<lparr>IsExample := True\<rparr>) ''something'' [] False
     = Inr ''something''
   \<and> findSource srcTree (ubuntuTemplate\<lparr>IsExample := True\<rparr>) [] ''shell'' True
     = Inl (EmptyPathErr ''find source'')"
  using findSource_example [of "ubuntuTemplate\<lparr>IsExample := True\<rparr>" "''cookbook1''" srcTree "''chef-solo''" True]
    findSource_example [of "ubuntuTemplate\<lparr>IsExample := True\<rparr>" "''something''" srcTree "[]" False]
    findSource_example [of "ubuntuTemplate\<lparr>IsExample := True\<rparr>" "[]" srcTree "''shell''" True]
  by (simp add: ubuntuTemplate_def HasSuffix_def)


section \<open>The HTTP directory of a builder\<close>

lemma setHTTP_resolver_fails:
  "m ''http_directory'' = None \<Longrightarrow> opFindSource ops r ''http'' component True = Inl err
     \<Longrightarrow> setHTTP ops r component m = (Inl (Errorf ''setHTTP error: %s'' (Some err)), r)"
  by (simp add: setHTTP_def)

lemma setHTTP_rawTemplate_default:
  "m ''http_directory'' = None \<Longrightarrow> findComponentSource component ''http'' = Inr src \<Longrightarrow>
     setHTTP_rawTemplate findComponentSource buildOutPath buildTemplateResourcePath dirs component m
       = (Inr (m(''http_directory'' \<mapsto> IString (buildTemplateResourcePath component ''http''))),
          dirs(buildOutPath component ''http'' \<mapsto> src))"
  by (simp add: setHTTP_rawTemplate_def)

text \<open>
  What \<open>setHTTP\<close> does where it is called (by the builders qemu, virtualbox-iso,
  virtualbox-ovf, vmware-iso and vmware-vmx). When the settings map has no
  \<open>http_directory\<close> key, \<open>setHTTP\<close> takes the
  literal \<open>http\<close>, resolves it through the source resolver as a directory (\<open>isDir\<close> is
  true) and, the resolver having answered with the source \<open>src\<close>, records \<open>src\<close> in the
  directory ledger under the output path computed for \<open>http\<close> and sets \<open>http_directory\<close>
  to the output-tree relative form of \<open>http\<close>; every other setting is as before and
  nothing but the ledger changes in the template. An empty \<open>src\<close> (no source was
  found and no error raised) is not recorded.
\<close>

theorem setHTTP_default:
  assumes "m ''http_directory'' = None"
    and "opFindSource ops r ''http'' component True = Inr src"
  shows "\<exists>m' r'. setHTTP ops r component m = (Inr m', r')
     \<and> m' ''http_directory'' = Some (IString (opBuildTemplateResourcePath ops r' [] ''http'' False))
     \<and> (\<forall>k. k \<noteq> ''http_directory'' \<longrightarrow> m' k = m k)
     \<and> Dirs r' = (if src = [] then Dirs r else (Dirs r)(opBuildOutPath ops r [] ''http'' \<mapsto> src))
     \<and> r' = r\<lparr>Dirs := Dirs r'\<rparr>"
  using assms by (auto simp add: setHTTP_def Let_def)

theorem setHTTP_default_witness:
  "vboxSettings ''http_directory'' = None
   \<and> opFindSource ops0 ubuntuTemplate ''http'' ''virtualbox-iso'' True = Inr ''src/ubuntu/http/''
   \<and> setHTTP ops0 ubuntuTemplate ''virtualbox-iso'' vboxSettings
       = (Inr (vboxSettings(''http_directory'' \<mapsto> IString ''http'')),
          ubuntuTemplate\<lparr>Dirs := [''out/http'' \<mapsto> ''src/ubuntu/http/'']\<rparr>)"
proof -
  have m: "vboxSettings ''http_directory'' = None"
    by (simp add: vboxSettings_def)
  have f: "opFindSource ops0 ubuntuTemplate ''http'' ''virtualbox-iso'' True = Inr ''src/ubuntu/http/''"
    by (simp add: ops0_def findSource_def candidates_def ubuntuTemplate_def srcTree_def
        withSeparator_def HasSuffix_def)
  from setHTTP_default [where m = vboxSettings and ops = ops0 and r = ubuntuTemplate
      and component = "''virtualbox-iso''" and src = "''src/ubuntu/http/''", OF m f]
  obtain m' r' where
    res: "setHTTP ops0 ubuntuTemplate ''virtualbox-iso'' vboxSettings = (Inr m', r')"
    and h: "m' ''http_directory'' = Some (IString (opBuildTemplateResourcePath ops0 r' [] ''http'' False))"
    and o: "\<forall>k. k \<noteq> ''http_directory'' \<longrightarrow> m' k = vboxSettings k"
    and d: "Dirs r' = (if ''src/ubuntu/http/'' = [] then Dirs ubuntuTemplate
              else (Dirs ubuntuTemplate)(opBuildOutPath ops0 ubuntuTemplate [] ''http'' \<mapsto> ''src/ubuntu/http/''))"
    and r: "r' = ubuntuTemplate\<lparr>Dirs := Dirs r'\<rparr>"
    by blast
  from h o have "m' = vboxSettings(''http_directory'' \<mapsto> IString ''http'')"
    by (auto simp add: ops0_def fun_eq_iff)
  moreover from d r have "r' = ubuntuTemplate\<lparr>Dirs := [''out/http'' \<mapsto> ''src/ubuntu/http/'']\<rparr>"
    by (simp add: ops0_def ubuntuTemplate_def)
  ultimately show ?thesis using m f res by simp
qed

section \<open>The vboxmanage rows\<close>



section \<open>The common builder section\<close>

lemma updateCommon_ignores_new:
  "Builders r (Builder_String Common) = Some b
     \<Longrightarrow> updateCommon ops r newB = updateCommon ops r newB'"
  by (simp add: updateCommon_def)

lemma updateCommon_adds_missing:
  "Builders r (Builder_String Common) = None
     \<Longrightarrow> updateCommon ops r newB =
         (None, r\<lparr>Builders := (Builders r)(''common'' \<mapsto>
            \<lparr>Type = Type newB, Settings = Settings newB, Arrays = Arrays newB\<rparr>)\<rparr>)"
  by (simp add: updateCommon_def)

lemma updateCommon_rawTemplate_ignores_new:
  "builders (Builder_String Common) = Some b \<Longrightarrow>
     updateCommon_rawTemplate mergeSettings builders newB
       = updateCommon_rawTemplate mergeSettings builders newB'"
  by (simp add: updateCommon_rawTemplate_def)

text \<open>
  \<open>updateCommon\<close> alone merges the settings of the existing common section with
  themselves: with \<open>ssh_wait_timeout = 300m\<close> in the template and
  \<open>ssh_wait_timeout = 240m\<close>, \<open>headless = true\<close> in the named build, the common section
  after \<open>updateCommon\<close> is what it was.
\<close>

lemma updateCommon_self_merge_example:
  "updateCommon ops0
     (ubuntuTemplate\<lparr>Builders := [''common'' \<mapsto>
        \<lparr>Type = ''common'', Settings = [''ssh_wait_timeout = 300m''], Arrays = []\<rparr>]\<rparr>)
     \<lparr>Type = ''common'', Settings = [''ssh_wait_timeout = 240m'', ''headless = true''], Arrays = []\<rparr>
   = (None, ubuntuTemplate\<lparr>Builders := [''common'' \<mapsto>
        \<lparr>Type = ''common'', Settings = [''ssh_wait_timeout = 300m''], Arrays = []\<rparr>]\<rparr>)"
  by (simp add: updateCommon_def ops0_def ubuntuTemplate_def mergeSettingsSlices_def
      merged_entry_def unset_in_def setting_def entry_for_def key_of_def value_of_def
      parseVar_def TrimSpace_def is_space_def)

section \<open>The overlay of the common section\<close>





section \<open>The amazon-chroot builder and root_volume_size\<close>

lemma chrootKey_root_volume_size:
  "key_of s = ''root_volume_size'' \<Longrightarrow>
     chrootKey rv s st =
       Inl (SettingErr ''root_volume_size'' (rv (value_of s))
             (case Atoi (rv (value_of s)) of Inl err \<Rightarrow> Some err | Inr i \<Rightarrow> None))"
  by (simp add: chrootKey_def key_of_def value_of_def split_beta Let_def)

lemma chrootKey_other:
  "key_of s \<noteq> ''root_volume_size'' \<Longrightarrow> \<exists>st'. chrootKey rv s st = Inr st'"
  by (simp add: chrootKey_def key_of_def split_beta Let_def)

lemma walk_chrootKey:
  "\<exists>s \<in> set ws. key_of s = ''root_volume_size'' \<Longrightarrow>
     \<exists>s \<in> set ws. key_of s = ''root_volume_size'' \<and>
       walk (chrootKey rv) ws st =
         Inl (SettingErr ''root_volume_size'' (rv (value_of s))
               (case Atoi (rv (value_of s)) of Inl err \<Rightarrow> Some err | Inr i \<Rightarrow> None))"
proof (induction ws arbitrary: st)
  case Nil
  then show ?case by simp
next
  case (Cons a ws)
  show ?case
  proof (cases "key_of a = ''root_volume_size''")
    case True
    then show ?thesis by (simp add: chrootKey_root_volume_size)
  next
    case False
    then obtain st' where st': "chrootKey rv a st = Inr st'"
      using chrootKey_other by blast
    from False Cons.prems have "\<exists>s \<in> set ws. key_of s = ''root_volume_size''" by auto
    from Cons.IH [OF this, of st'] st' show ?thesis by auto
  qed
qed

text \<open>
  Claim C9. For an amazon-chroot builder whose merged settings \<open>ws\<close> have an entry with
  the key \<open>root_volume_size\<close>, \<open>createAmazonChroot\<close> returns an error and no settings
  map. Once the communicator has been processed the error is the \<open>SettingErr\<close> for
  \<open>root_volume_size\<close> with the value of such an entry; the error it wraps is \<open>nil\<close> when
  the value is a valid integer. So a result \<open>Inr\<close> is only possible when no entry has that
  key.
\<close>

theorem createAmazonChroot_root_volume_size:
  assumes "Builders r ID = Some b"
    and "workSlice ops r b = Inr ws"
    and "\<exists>s \<in> set ws. key_of s = ''root_volume_size''"
  shows "(\<exists>err. createAmazonChroot ops r ID = Inl err)
     \<and> (\<forall>prefix m.
           opProcessCommunicator ops r ID ws [''type'' \<mapsto> IString ''amazon-chroot''] = Inr (prefix, m) \<longrightarrow>
           (\<exists>s \<in> set ws. key_of s = ''root_volume_size'' \<and>
              createAmazonChroot ops r ID =
                Inl (SettingErr ''root_volume_size'' (opReplaceVariables ops r (value_of s))
                      (case Atoi (opReplaceVariables ops r (value_of s)) of
                         Inl err \<Rightarrow> Some err | Inr i \<Rightarrow> None))))"
proof -
  have spec: "\<exists>s \<in> set ws. key_of s = ''root_volume_size'' \<and>
              createAmazonChroot ops r ID =
                Inl (SettingErr ''root_volume_size'' (opReplaceVariables ops r (value_of s))
                      (case Atoi (opReplaceVariables ops r (value_of s)) of
                         Inl err \<Rightarrow> Some err | Inr i \<Rightarrow> None))"
    if pc: "opProcessCommunicator ops r ID ws [''type'' \<mapsto> IString ''amazon-chroot''] = Inr (prefix, m)"
    for prefix m
  proof -
    from walk_chrootKey [OF assms(3), of "opReplaceVariables ops r"
        "\<lparr>cSettings = m, hasAccessKey = False, hasAmiName = False,
          hasSecretKey = False, hasSourceAmi = False\<rparr>"]
    obtain s where s: "s \<in> set ws" "key_of s = ''root_volume_size''"
      and w: "walk (chrootKey (opReplaceVariables ops r)) ws
                \<lparr>cSettings = m, hasAccessKey = False, hasAmiName = False,
                 hasSecretKey = False, hasSourceAmi = False\<rparr> =
              Inl (SettingErr ''root_volume_size'' (opReplaceVariables ops r (value_of s))
                    (case Atoi (opReplaceVariables ops r (value_of s)) of
                       Inl err \<Rightarrow> Some err | Inr i \<Rightarrow> None))"
      by blast
    from assms(1,2) pc w have "createAmazonChroot ops r ID =
                Inl (SettingErr ''root_volume_size'' (opReplaceVariables ops r (value_of s))
                      (case Atoi (opReplaceVariables ops r (value_of s)) of
                         Inl err \<Rightarrow> Some err | Inr i \<Rightarrow> None))"
      by (simp add: createAmazonChroot_def)
    with s show ?thesis by blast
  qed
  have "\<exists>err. createAmazonChroot ops r ID = Inl err"
  proof (cases "opProcessCommunicator ops r ID ws [''type'' \<mapsto> IString ''amazon-chroot'']")
    case (Inl err)
    with assms(1,2) show ?thesis by (simp add: createAmazonChroot_def)
  next
    case (Inr pm)
    then obtain prefix m where
      "opProcessCommunicator ops r ID ws [''type'' \<mapsto> IString ''amazon-chroot''] = Inr (prefix, m)"
      by (cases pm) simp
    from spec [OF this] show ?thesis by blast
  qed
  with spec show ?thesis by blast
qed

theorem createAmazonChroot_root_volume_size_witness:
  "Builders (chrootTemplate [''root_volume_size = 8'']) ''amazon-chroot''
     = Some \<lparr>Type = ''amazon-chroot'',
        Settings = [''access_key = AKIA'', ''ami_name = feedlot'', ''secret_key = s3cr3t'',
                    ''source_ami = ami-e81d5881'', ''root_volume_size = 8''],
        Arrays = [(''ami_users'', IStrings [''aws-account-1''])]\<rparr>
   \<and> key_of ''root_volume_size = 8'' = ''root_volume_size''
   \<and> Atoi ''8'' = Inr 8
   \<and> createAmazonChroot ops0 (chrootTemplate [''root_volume_size = 8'']) ''amazon-chroot''
       = Inl (SettingErr ''root_volume_size'' ''8'' None)"
proof -
  let ?b = "\<lparr>Type = ''amazon-chroot'',
        Settings = [''access_key = AKIA'', ''ami_name = feedlot'', ''secret_key = s3cr3t'',
                    ''source_ami = ami-e81d5881'', ''root_volume_size = 8''],
        Arrays = [(''ami_users'', IStrings [''aws-account-1''])]\<rparr>"
  have k: "key_of ''root_volume_size = 8'' = ''root_volume_size''"
    and v: "value_of ''root_volume_size = 8'' = ''8''"
    by (simp_all add: key_of_def value_of_def parseVar_def TrimSpace_def is_space_def)
  have a: "Atoi ''8'' = Inr 8"
    by (simp add: Atoi_def isDigit_def)
  have b: "Builders (chrootTemplate [''root_volume_size = 8'']) ''amazon-chroot'' = Some ?b"
    by (simp add: chrootTemplate_def ubuntuTemplate_def)
  have w: "workSlice ops0 (chrootTemplate [''root_volume_size = 8'']) ?b = Inr (Settings ?b)"
    by (simp add: workSlice_def chrootTemplate_def ubuntuTemplate_def)
  have e: "\<exists>s \<in> set (Settings ?b). key_of s = ''root_volume_size''"
    using k by simp
  have eval: "createAmazonChroot ops0 (chrootTemplate [''root_volume_size = 8'']) ''amazon-chroot''
       = Inl (SettingErr ''root_volume_size'' ''8'' None)"
    by (simp add: createAmazonChroot_def workSlice_def chrootTemplate_def ubuntuTemplate_def
        ops0_def chrootKey_def chrootString_def parseVar_def TrimSpace_def is_space_def
        Atoi_def isDigit_def)
  from createAmazonChroot_root_volume_size [OF b w e] eval k a b show ?thesis
    by simp
qed

lemma createAmazonChroot_without_root_volume_size:
  "map_sum id (\<lambda>m. map m [''type'', ''ami_name'', ''ami_users'', ''root_volume_size''])
     (createAmazonChroot ops0 (chrootTemplate []) ''amazon-chroot'')
   = Inr [Some (IString ''amazon-chroot''), Some (IString ''feedlot''),
          Some (IStrings [''aws-account-1'']), None]"
  by (simp add: createAmazonChroot_def workSlice_def chrootTemplate_def ubuntuTemplate_def
      ops0_def chrootKey_def chrootString_def parseVar_def TrimSpace_def is_space_def)

section \<open>The ISO settings of the virtualbox-iso builder\<close>

lemma vbInt_flags:
  "vbInt ID k v st = Inr st' \<Longrightarrow>
     hasISOURL st' = hasISOURL st \<and> hasChecksum st' = hasChecksum st
     \<and> hasChecksumType st' = hasChecksumType st"
  by (auto simp add: vbInt_def split: sum.splits)

lemma vbisoKey_flags:
  assumes "vbisoKey ops r ID prefix hc s st = Inr st'"
  shows "hasISOURL st' = (hasISOURL st \<or> key_of s = ''iso_url'')
     \<and> hasChecksum st' = (hasChecksum st \<or> key_of s = ''iso_checksum'')
     \<and> hasChecksumType st' = (hasChecksumType st \<or> key_of s = ''iso_checksum_type'')"
  using assms
  by (auto simp add: vbisoKey_def key_of_def split_beta Let_def vbString_def
      split: if_splits sum.splits dest: vbInt_flags)

lemma walk_vbisoKey_flags:
  "walk (vbisoKey ops r ID prefix hc) ws st = Inr st' \<Longrightarrow>
     hasISOURL st' = (hasISOURL st \<or> hasKey ws ''iso_url'')
     \<and> hasChecksum st' = (hasChecksum st \<or> hasKey ws ''iso_checksum'')
     \<and> hasChecksumType st' = (hasChecksumType st \<or> hasKey ws ''iso_checksum_type'')"
proof (induction ws arbitrary: st)
  case Nil
  then show ?case by (simp add: hasKey_def)
next
  case (Cons a ws)
  from Cons.prems obtain st1 where
    a: "vbisoKey ops r ID prefix hc a st = Inr st1"
    and rest: "walk (vbisoKey ops r ID prefix hc) ws st1 = Inr st'"
    by (auto split: sum.splits)
  from vbisoKey_flags [OF a] Cons.IH [OF rest] show ?case
    by (auto simp add: hasKey_def)
qed

lemma vbArray_flags:
  "vbArray name val flag st = Inr st' \<Longrightarrow> st' = st \<or> (\<exists>array. st' = flag (st\<lparr>vSettings := (vSettings st)(name \<mapsto> array)\<rparr>))"
  by (auto simp add: vbArray_def split: sum.splits option.splits)

lemma vbisoArray_flags:
  assumes "vbisoArray ops r entry st = Inr st'"
  shows "hasChecksum st' = hasChecksum st \<and> hasChecksumType st' = hasChecksumType st
     \<and> (hasISOURL st \<longrightarrow> hasISOURL st')
     \<and> (fst entry \<noteq> ''iso_urls'' \<longrightarrow> hasISOURL st' = hasISOURL st)"
  using assms
  by (auto simp add: vbisoArray_def split_beta Let_def
      split: if_splits sum.splits dest!: vbArray_flags)

lemma vbisoArrays_flags:
  "vbisoArrays ops r arrs st = Inr st' \<Longrightarrow>
     hasChecksum st' = hasChecksum st \<and> hasChecksumType st' = hasChecksumType st
     \<and> (hasISOURL st \<longrightarrow> hasISOURL st')
     \<and> (''iso_urls'' \<notin> fst ` set arrs \<longrightarrow> hasISOURL st' = hasISOURL st)"
proof (induction arrs arbitrary: st)
  case Nil
  then show ?case by simp
next
  case (Cons entry arrs)
  from Cons.prems obtain st1 where
    e: "vbisoArray ops r entry st = Inr st1"
    and rest: "vbisoArrays ops r arrs st1 = Inr st'"
    by (auto split: sum.splits)
  from vbisoArray_flags [OF e] Cons.IH [OF rest] show ?case
    by auto
qed

lemma vbisoBootCommand_flags:
  "vbisoBootCommand ops r ID st = Inr st' \<Longrightarrow>
     hasISOURL st' = hasISOURL st \<and> hasChecksum st' = hasChecksum st
     \<and> hasChecksumType st' = hasChecksumType st"
  by (auto simp add: vbisoBootCommand_def split: if_splits sum.splits)

lemma vbisoPrepare_flags:
  assumes "vbisoPrepare ops r ID = (Inr st, r')"
    and "Builders r ID = Some b"
    and "workSlice ops r b = Inr ws"
  shows "hasChecksum st = hasKey ws ''iso_checksum''
     \<and> hasChecksumType st = hasKey ws ''iso_checksum_type''
     \<and> (hasKey ws ''iso_url'' \<longrightarrow> hasISOURL st)
     \<and> (\<not> hasKey ws ''iso_url'' \<and> ''iso_urls'' \<notin> fst ` set (Arrays b) \<longrightarrow> \<not> hasISOURL st)"
  using assms
  apply (simp add: vbisoPrepare_def split: sum.splits prod.splits if_splits option.splits)
     apply (drule walk_vbisoKey_flags, drule vbisoArrays_flags, drule vbisoBootCommand_flags, auto)+
  done


lemma createVirtualBoxISO_needs_checksum:
  assumes "Builders r ID = Some b"
    and "workSlice ops r b = Inr ws"
    and "hasKey ws ''iso_url''"
    and "\<not> hasKey ws ''iso_checksum'' \<or> \<not> hasKey ws ''iso_checksum_type''"
  shows "\<exists>err r'. createVirtualBoxISO ops r ID = (Inl err, r')"
proof (cases "vbisoPrepare ops r ID")
  case (Pair res r')
  show ?thesis
  proof (cases res)
    case (Inl err)
    with Pair show ?thesis by (simp add: createVirtualBoxISO_def)
  next
    case (Inr st)
    with Pair have prep: "vbisoPrepare ops r ID = (Inr st, r')" by simp
    from vbisoPrepare_flags [OF prep assms(1,2)] assms(3,4) prep show ?thesis
      by (auto simp add: createVirtualBoxISO_def vbisoResolveISO_def)
  qed
qed

lemma createVirtualBoxISO_after_prepare:
  assumes "vbisoPrepare ops r ID = (Inr st, r')"
    and "Builders r ID = Some b"
    and "workSlice ops r b = Inr ws"
  shows "(hasKey ws ''iso_url'' \<and> \<not> hasKey ws ''iso_checksum'' \<longrightarrow>
        createVirtualBoxISO ops r ID =
          (Inl (BuilderErr ID VirtualBoxISO (RequiredSettingErr ''iso_checksum'')), r'))
     \<and> (hasKey ws ''iso_url'' \<and> hasKey ws ''iso_checksum'' \<and> \<not> hasKey ws ''iso_checksum_type'' \<longrightarrow>
        createVirtualBoxISO ops r ID =
          (Inl (BuilderErr ID VirtualBoxISO (RequiredSettingErr ''iso_checksum_type'')), r'))
     \<and> (\<not> hasKey ws ''iso_url'' \<and> ''iso_urls'' \<notin> fst ` set (Arrays b) \<longrightarrow>
        (\<forall>rel. (rDistro r' = ''centos'' \<and> ReleaseISO r' = Some (CentosISO rel))
               \<or> (rDistro r' = ''debian'' \<and> ReleaseISO r' = Some (DebianISO rel))
               \<or> (rDistro r' = ''ubuntu'' \<and> ReleaseISO r' = Some (UbuntuISO rel)) \<longrightarrow>
           createVirtualBoxISO ops r ID =
             (Inr ((vSettings st)(''iso_url'' \<mapsto> IString (opImageURL ops rel),
                                 ''iso_checksum'' \<mapsto> IString (Checksum rel),
                                 ''iso_checksum_type'' \<mapsto> IString (ChecksumType rel))), r')))"
proof -
  note flags = vbisoPrepare_flags [OF assms]
  have run: "createVirtualBoxISO ops r ID = (vbisoResolveISO ops ID r' st, r')"
    using assms(1) by (simp add: createVirtualBoxISO_def)
  have c1: "vbisoResolveISO ops ID r' st = Inl (BuilderErr ID VirtualBoxISO (RequiredSettingErr ''iso_checksum''))"
    if "hasKey ws ''iso_url'' \<and> \<not> hasKey ws ''iso_checksum''"
    using that flags by (simp add: vbisoResolveISO_def)
  have c2: "vbisoResolveISO ops ID r' st = Inl (BuilderErr ID VirtualBoxISO (RequiredSettingErr ''iso_checksum_type''))"
    if "hasKey ws ''iso_url'' \<and> hasKey ws ''iso_checksum'' \<and> \<not> hasKey ws ''iso_checksum_type''"
    using that flags by (simp add: vbisoResolveISO_def)
  have c3: "vbisoResolveISO ops ID r' st =
             Inr ((vSettings st)(''iso_url'' \<mapsto> IString (opImageURL ops rel),
                                 ''iso_checksum'' \<mapsto> IString (Checksum rel),
                                 ''iso_checksum_type'' \<mapsto> IString (ChecksumType rel)))"
    if "\<not> hasKey ws ''iso_url'' \<and> ''iso_urls'' \<notin> fst ` set (Arrays b)"
      and "(rDistro r' = ''centos'' \<and> ReleaseISO r' = Some (CentosISO rel))
               \<or> (rDistro r' = ''debian'' \<and> ReleaseISO r' = Some (DebianISO rel))
               \<or> (rDistro r' = ''ubuntu'' \<and> ReleaseISO r' = Some (UbuntuISO rel))"
    for rel
    using that flags by (auto simp add: vbisoResolveISO_def isoFromRelease_def)
  from c1 c2 c3 show ?thesis unfolding run by blast
qed



text \<open>
  Claim C4, as the code has it. For a virtualbox-iso builder with the merged settings
  \<open>ws\<close>: when \<open>ws\<close> sets \<open>iso_url\<close> and lacks \<open>iso_checksum\<close> or \<open>iso_checksum_type\<close>,
  \<open>createVirtualBoxISO\<close> returns an error and no settings, whatever else happens. The
  ISO settings are looked at last: when an earlier step fails (the loop over the
  settings, the required user name and password, the HTTP directory, the loop over the
  arrays, the ISO discovery that still runs when the OS type of the template is empty,
  the boot command file), the error of that step is the result. When all of them
  succeed, \<open>iso_url\<close> without \<open>iso_checksum\<close> gives the required-setting error that names
  \<open>iso_checksum\<close>, \<open>iso_url\<close> and \<open>iso_checksum\<close> without \<open>iso_checksum_type\<close> the one
  that names \<open>iso_checksum_type\<close>, nothing being taken from the ISO release object; and
  with no \<open>iso_url\<close> in \<open>ws\<close> and no \<open>iso_urls\<close> array, \<open>iso_url\<close>, \<open>iso_checksum\<close> and
  \<open>iso_checksum_type\<close> are the image URL, the checksum and the checksum type of the ISO
  release object of the distro of the template.
\<close>

theorem createVirtualBoxISO_iso_settings:
  assumes "Builders r ID = Some b"
    and "workSlice ops r b = Inr ws"
  shows "(hasKey ws ''iso_url'' \<and> (\<not> hasKey ws ''iso_checksum'' \<or> \<not> hasKey ws ''iso_checksum_type'') \<longrightarrow>
        (\<exists>err r'. createVirtualBoxISO ops r ID = (Inl err, r')))
     \<and> (\<forall>err r'. vbisoPrepare ops r ID = (Inl err, r') \<longrightarrow>
          createVirtualBoxISO ops r ID = (Inl err, r'))
     \<and> (\<forall>st r'. vbisoPrepare ops r ID = (Inr st, r') \<longrightarrow>
          (hasKey ws ''iso_url'' \<and> \<not> hasKey ws ''iso_checksum'' \<longrightarrow>
             createVirtualBoxISO ops r ID =
               (Inl (BuilderErr ID VirtualBoxISO (RequiredSettingErr ''iso_checksum'')), r'))
          \<and> (hasKey ws ''iso_url'' \<and> hasKey ws ''iso_checksum'' \<and> \<not> hasKey ws ''iso_checksum_type'' \<longrightarrow>
             createVirtualBoxISO ops r ID =
               (Inl (BuilderErr ID VirtualBoxISO (RequiredSettingErr ''iso_checksum_type'')), r'))
          \<and> (\<not> hasKey ws ''iso_url'' \<and> ''iso_urls'' \<notin> fst ` set (Arrays b) \<longrightarrow>
             (\<forall>rel. (rDistro r' = ''centos'' \<and> ReleaseISO r' = Some (CentosISO rel))
                    \<or> (rDistro r' = ''debian'' \<and> ReleaseISO r' = Some (DebianISO rel))
                    \<or> (rDistro r' = ''ubuntu'' \<and> ReleaseISO r' = Some (UbuntuISO rel)) \<longrightarrow>
                createVirtualBoxISO ops r ID =
                  (Inr ((vSettings st)(''iso_url'' \<mapsto> IString (opImageURL ops rel),
                                      ''iso_checksum'' \<mapsto> IString (Checksum rel),
                                      ''iso_checksum_type'' \<mapsto> IString (ChecksumType rel))), r'))))"
proof (intro conjI allI impI)
  assume "hasKey ws ''iso_url'' \<and> (\<not> hasKey ws ''iso_checksum'' \<or> \<not> hasKey ws ''iso_checksum_type'')"
  then show "\<exists>err r'. createVirtualBoxISO ops r ID = (Inl err, r')"
    using createVirtualBoxISO_needs_checksum [OF assms] by blast
next
  fix err r'
  assume "vbisoPrepare ops r ID = (Inl err, r')"
  then show "createVirtualBoxISO ops r ID = (Inl err, r')"
    by (simp add: createVirtualBoxISO_def)
next
  fix st r'
  assume prep: "vbisoPrepare ops r ID = (Inr st, r')"
    and "hasKey ws ''iso_url'' \<and> \<not> hasKey ws ''iso_checksum''"
  then show "createVirtualBoxISO ops r ID =
               (Inl (BuilderErr ID VirtualBoxISO (RequiredSettingErr ''iso_checksum'')), r')"
    using createVirtualBoxISO_after_prepare [OF prep assms] by blast
next
  fix st r'
  assume prep: "vbisoPrepare ops r ID = (Inr st, r')"
    and "hasKey ws ''iso_url'' \<and> hasKey ws ''iso_checksum'' \<and> \<not> hasKey ws ''iso_checksum_type''"
  then show "createVirtualBoxISO ops r ID =
               (Inl (BuilderErr ID VirtualBoxISO (RequiredSettingErr ''iso_checksum_type'')), r')"
    using createVirtualBoxISO_after_prepare [OF prep assms] by blast
next
  fix st r' rel
  assume prep: "vbisoPrepare ops r ID = (Inr st, r')"
    and "\<not> hasKey ws ''iso_url'' \<and> ''iso_urls'' \<notin> fst ` set (Arrays b)"
    and "(rDistro r' = ''centos'' \<and> ReleaseISO r' = Some (CentosISO rel))
                    \<or> (rDistro r' = ''debian'' \<and> ReleaseISO r' = Some (DebianISO rel))
                    \<or> (rDistro r' = ''ubuntu'' \<and> ReleaseISO r' = Some (UbuntuISO rel))"
  then show "createVirtualBoxISO ops r ID =
                  (Inr ((vSettings st)(''iso_url'' \<mapsto> IString (opImageURL ops rel),
                                      ''iso_checksum'' \<mapsto> IString (Checksum rel),
                                      ''iso_checksum_type'' \<mapsto> IString (ChecksumType rel))), r')"
    using createVirtualBoxISO_after_prepare [OF prep assms] by blast
qed

lemma vboxTemplate_builder:
  "Builders (vboxTemplate isoSettings) ''virtualbox-iso'' = Some (vboxBuilder isoSettings)"
  by (simp add: vboxTemplate_def vboxBuilder_def ubuntuTemplate_def)

lemma vboxTemplate_workSlice:
  "workSlice ops0 (vboxTemplate isoSettings) (vboxBuilder isoSettings)
     = Inr ([''ssh_username = vagrant'', ''ssh_password = vagrant''] @ isoSettings)"
  by (simp add: workSlice_def vboxTemplate_def vboxBuilder_def ubuntuTemplate_def)

lemmas vbiso_eval = vbisoPrepare_def workSlice_def vboxTemplate_def ubuntuTemplate_def ops0_def
  vbisoKey_def vbString_def vbInt_def parseVar_def TrimSpace_def is_space_def
  setHTTP_def findSource_def candidates_def srcTree_def withSeparator_def HasSuffix_def
  vbisoArray_def createVBoxManage_def vboxManageRow_def HasPrefix_def vbisoBootCommand_def
  stringIsCommandFilename_def Let_def

theorem createVirtualBoxISO_iso_settings_witness:
  "fst (createVirtualBoxISO ops0 (vboxTemplate [''iso_url = http://example.org/my.iso''])
          ''virtualbox-iso'')
     = Inl (BuilderErr ''virtualbox-iso'' VirtualBoxISO (RequiredSettingErr ''iso_checksum''))
   \<and> fst (createVirtualBoxISO ops0
            (vboxTemplate [''iso_url = http://example.org/my.iso'', ''iso_checksum = abc''])
            ''virtualbox-iso'')
     = Inl (BuilderErr ''virtualbox-iso'' VirtualBoxISO (RequiredSettingErr ''iso_checksum_type''))
   \<and> (case fst (createVirtualBoxISO ops0 (vboxTemplate []) ''virtualbox-iso'') of
         Inl err \<Rightarrow> []
       | Inr m \<Rightarrow> [m ''iso_url'', m ''iso_checksum'', m ''iso_checksum_type''])
     = [Some (IString ''http://releases.ubuntu.com/14.04/ubuntu-14.04-server-amd64.iso''),
        Some (IString ''0123abcd''), Some (IString ''sha256'')]"
proof -
  let ?A = "[''iso_url = http://example.org/my.iso'']"
  let ?B = "[''iso_url = http://example.org/my.iso'', ''iso_checksum = abc'']"
  have keys:
    "hasKey ([''ssh_username = vagrant'', ''ssh_password = vagrant''] @ ?A) ''iso_url''"
    "\<not> hasKey ([''ssh_username = vagrant'', ''ssh_password = vagrant''] @ ?A) ''iso_checksum''"
    "hasKey ([''ssh_username = vagrant'', ''ssh_password = vagrant''] @ ?B) ''iso_url''"
    "hasKey ([''ssh_username = vagrant'', ''ssh_password = vagrant''] @ ?B) ''iso_checksum''"
    "\<not> hasKey ([''ssh_username = vagrant'', ''ssh_password = vagrant''] @ ?B) ''iso_checksum_type''"
    "\<not> hasKey ([''ssh_username = vagrant'', ''ssh_password = vagrant''] @ []) ''iso_url''"
    by (simp_all add: hasKey_def key_of_def parseVar_def TrimSpace_def is_space_def)
  have arrays: "''iso_urls'' \<notin> fst ` set (Arrays (vboxBuilder []))"
    by (simp add: vboxBuilder_def)
  obtain stA rA where
    prepA: "vbisoPrepare ops0 (vboxTemplate ?A) ''virtualbox-iso'' = (Inr stA, rA)"
  proof -
    have "\<exists>st r'. vbisoPrepare ops0 (vboxTemplate ?A) ''virtualbox-iso'' = (Inr st, r')"
      by (simp add: vbiso_eval)
    with that show ?thesis by blast
  qed
  obtain stB rB where
    prepB: "vbisoPrepare ops0 (vboxTemplate ?B) ''virtualbox-iso'' = (Inr stB, rB)"
  proof -
    have "\<exists>st r'. vbisoPrepare ops0 (vboxTemplate ?B) ''virtualbox-iso'' = (Inr st, r')"
      by (simp add: vbiso_eval)
    with that show ?thesis by blast
  qed
  obtain stC rC where
    prepC: "vbisoPrepare ops0 (vboxTemplate []) ''virtualbox-iso'' = (Inr stC, rC)"
    and distro: "rDistro rC = ''ubuntu''"
    and iso: "ReleaseISO rC = Some (UbuntuISO ubuntuISO)"
  proof -
    have "\<exists>st r'. vbisoPrepare ops0 (vboxTemplate []) ''virtualbox-iso'' = (Inr st, r')
        \<and> rDistro r' = ''ubuntu'' \<and> ReleaseISO r' = Some (UbuntuISO ubuntuISO)"
      by (simp add: vbiso_eval)
    with that show ?thesis by blast
  qed
  from createVirtualBoxISO_iso_settings [OF vboxTemplate_builder vboxTemplate_workSlice, of ?A] prepA keys
  have a: "fst (createVirtualBoxISO ops0 (vboxTemplate ?A) ''virtualbox-iso'')
     = Inl (BuilderErr ''virtualbox-iso'' VirtualBoxISO (RequiredSettingErr ''iso_checksum''))"
    by simp
  from createVirtualBoxISO_iso_settings [OF vboxTemplate_builder vboxTemplate_workSlice, of ?B] prepB keys
  have b: "fst (createVirtualBoxISO ops0 (vboxTemplate ?B) ''virtualbox-iso'')
     = Inl (BuilderErr ''virtualbox-iso'' VirtualBoxISO (RequiredSettingErr ''iso_checksum_type''))"
    by simp
  from createVirtualBoxISO_iso_settings [OF vboxTemplate_builder vboxTemplate_workSlice, of "[]"] prepC
    keys arrays distro iso
  have "createVirtualBoxISO ops0 (vboxTemplate []) ''virtualbox-iso'' =
             (Inr ((vSettings stC)(''iso_url'' \<mapsto> IString (opImageURL ops0 ubuntuISO),
                                 ''iso_checksum'' \<mapsto> IString (Checksum ubuntuISO),
                                 ''iso_checksum_type'' \<mapsto> IString (ChecksumType ubuntuISO))), rC)"
    by simp
  then have c: "(case fst (createVirtualBoxISO ops0 (vboxTemplate []) ''virtualbox-iso'') of
         Inl err \<Rightarrow> []
       | Inr m \<Rightarrow> [m ''iso_url'', m ''iso_checksum'', m ''iso_checksum_type''])
     = [Some (IString ''http://releases.ubuntu.com/14.04/ubuntu-14.04-server-amd64.iso''),
        Some (IString ''0123abcd''), Some (IString ''sha256'')]"
    by (simp add: ops0_def ubuntuISO_def)
  from a b c show ?thesis by simp
qed

text \<open>
  The claim as it is written has the missing \<open>iso_checksum\<close> reported whenever \<open>iso_url\<close>
  is set and the other required settings are there. The ISO discovery runs before the
  ISO settings are looked at, also when \<open>iso_url\<close> is set: with user name, password and
  \<open>iso_url\<close> in the settings, no \<open>iso_checksum\<close>, and a discovery that fails, the error
  returned is the error of the discovery.
\<close>

theorem createVirtualBoxISO_discovery_error_counterexample:
  "hasKey [''ssh_username = vagrant'', ''ssh_password = vagrant'', ''iso_url = http://example.org/my.iso'']
      ''iso_url''
   \<and> hasKey [''ssh_username = vagrant'', ''ssh_password = vagrant'', ''iso_url = http://example.org/my.iso'']
      ''ssh_username''
   \<and> hasKey [''ssh_username = vagrant'', ''ssh_password = vagrant'', ''iso_url = http://example.org/my.iso'']
      ''ssh_password''
   \<and> \<not> hasKey [''ssh_username = vagrant'', ''ssh_password = vagrant'', ''iso_url = http://example.org/my.iso'']
      ''iso_checksum''
   \<and> workSlice opsOffline (vboxTemplate [''iso_url = http://example.org/my.iso''])
        (vboxBuilder [''iso_url = http://example.org/my.iso''])
     = Inr [''ssh_username = vagrant'', ''ssh_password = vagrant'', ''iso_url = http://example.org/my.iso'']
   \<and> fst (createVirtualBoxISO opsOffline (vboxTemplate [''iso_url = http://example.org/my.iso''])
          ''virtualbox-iso'')
     = Inl (BuilderErr ''virtualbox-iso'' VirtualBoxISO (External ''no such host''))"
  by (simp add: createVirtualBoxISO_def vbiso_eval opsOffline_def vboxBuilder_def hasKey_def
      key_of_def propagate_def)

section \<open>The HTTP directory of the parallels-iso builder\<close>

lemma prlInt_http:
  "prlInt ID k v st = Inr st' \<Longrightarrow> k \<noteq> ''http_directory''
     \<Longrightarrow> pSettings st' ''http_directory'' = pSettings st ''http_directory''"
  by (auto simp add: prlInt_def split: sum.splits)

lemma prlisoKey_http:
  "prlisoKey ops r ID prefix hasCommunicator s st = Inr st' \<Longrightarrow> key_of s \<noteq> ''http_directory''
     \<Longrightarrow> pSettings st' ''http_directory'' = pSettings st ''http_directory''"
  by (auto simp add: prlisoKey_def key_of_def prlString_def Let_def
      split: prod.splits if_splits sum.splits dest: prlInt_http)

lemma walk_prlisoKey_http:
  "walk (prlisoKey ops r ID prefix hasCommunicator) ws st = Inr st' \<Longrightarrow> \<not> hasKey ws ''http_directory''
     \<Longrightarrow> pSettings st' ''http_directory'' = pSettings st ''http_directory''"
proof (induction ws arbitrary: st)
  case Nil
  then show ?case by simp
next
  case (Cons s ws)
  from Cons.prems(1) obtain st1 where
    step: "prlisoKey ops r ID prefix hasCommunicator s st = Inr st1"
    and rest: "walk (prlisoKey ops r ID prefix hasCommunicator) ws st1 = Inr st'"
    by (auto split: sum.splits)
  from Cons.prems(2) have k: "key_of s \<noteq> ''http_directory''" and ws: "\<not> hasKey ws ''http_directory''"
    by (simp_all add: hasKey_def)
  from Cons.IH [OF rest ws] prlisoKey_http [OF step k] show ?case by simp
qed

lemma prlisoArray_http:
  "prlisoArray entry st = Inr st'
     \<Longrightarrow> pSettings st' ''http_directory'' = pSettings st ''http_directory''"
  by (auto simp add: prlisoArray_def prlArray_def split: prod.splits if_splits sum.splits option.splits)

lemma prlisoArrays_http:
  "prlisoArrays arrays st = Inr st'
     \<Longrightarrow> pSettings st' ''http_directory'' = pSettings st ''http_directory''"
proof (induction arrays arbitrary: st)
  case Nil
  then show ?case by simp
next
  case (Cons e arrays)
  from Cons.prems obtain st1 where
    step: "prlisoArray e st = Inr st1" and rest: "prlisoArrays arrays st1 = Inr st'"
    by (auto split: sum.splits)
  from Cons.IH [OF rest] prlisoArray_http [OF step] show ?case by simp
qed

lemma prlisoBootCommand_http:
  "prlisoBootCommand ops r ID st = Inr st'
     \<Longrightarrow> pSettings st' ''http_directory'' = pSettings st ''http_directory''"
  by (auto simp add: prlisoBootCommand_def split: if_splits sum.splits)

text \<open>
  The virtualbox-iso builder calls \<open>setHTTP\<close>: on a template whose settings have no
  \<open>http_directory\<close>, the emitted settings have \<open>http_directory\<close> in the form of the output
  tree, and the resolved directory is in the ledger under the output path.
\<close>

lemma createVirtualBoxISO_http_directory_example:
  "(case createVirtualBoxISO ops0 (vboxTemplate []) ''virtualbox-iso'' of
      (Inl err, r') \<Rightarrow> (None, None)
    | (Inr m, r') \<Rightarrow> (m ''http_directory'', Dirs r' ''out/http''))
   = (Some (IString ''http''), Some ''src/ubuntu/http/'')"
  by (simp add: createVirtualBoxISO_def vbisoResolveISO_def isoFromRelease_def vbiso_eval)

text \<open>
  Claim C7 has, for every builder that exposes an HTTP directory, \<open>setHTTP\<close> assume
  \<open>http\<close> when the settings have no \<open>http_directory\<close>, record the resolved directory in
  the ledger and emit the rewritten value. The parallels-iso builder exposes
  \<open>http_directory\<close>: it is among its options and \<open>createParallelsISO\<close> copies a value that
  is set. But \<open>createParallelsISO\<close> does not call \<open>setHTTP\<close>, and it returns the settings
  only, the template and its ledger being as they were. When neither the merged settings
  nor the communicator set \<open>http_directory\<close>, the settings that \<open>createParallelsISO\<close>
  returns have no \<open>http_directory\<close>.
\<close>

theorem createParallelsISO_no_http_directory:
  assumes "Builders r ID = Some b"
    and "workSlice ops r b = Inr ws"
    and "\<not> hasKey ws ''http_directory''"
    and "opProcessCommunicator ops r ID ws [''type'' \<mapsto> IString ''parallels-iso''] = Inr (prefix, m0)"
    and "m0 ''http_directory'' = None"
    and "createParallelsISO ops r ID = Inr m"
  shows "m ''http_directory'' = None"
  using assms
  apply (simp add: createParallelsISO_def split: sum.splits if_splits)
  apply (drule walk_prlisoKey_http, assumption, drule prlisoArrays_http,
         drule prlisoBootCommand_http, auto)+
  done

theorem createParallelsISO_no_http_directory_witness:
  "Builders parallelsTemplate ''parallels-iso'' = Some parallelsBuilder
   \<and> workSlice ops0 parallelsTemplate parallelsBuilder = Inr (Settings parallelsBuilder)
   \<and> \<not> hasKey (Settings parallelsBuilder) ''http_directory''
   \<and> opProcessCommunicator ops0 parallelsTemplate ''parallels-iso'' (Settings parallelsBuilder)
        [''type'' \<mapsto> IString ''parallels-iso'']
      = Inr ([], [''type'' \<mapsto> IString ''parallels-iso''])
   \<and> (\<exists>m. createParallelsISO ops0 parallelsTemplate ''parallels-iso'' = Inr m
          \<and> m ''type'' = Some (IString ''parallels-iso'')
          \<and> m ''iso_url'' = Some (IString ''http://example.org/my.iso'')
          \<and> m ''http_directory'' = None)"
proof -
  have b: "Builders parallelsTemplate ''parallels-iso'' = Some parallelsBuilder"
    by (simp add: parallelsTemplate_def)
  have w: "workSlice ops0 parallelsTemplate parallelsBuilder = Inr (Settings parallelsBuilder)"
    by (simp add: workSlice_def parallelsTemplate_def ubuntuTemplate_def)
  have k: "\<not> hasKey (Settings parallelsBuilder) ''http_directory''"
    by (simp add: parallelsBuilder_def hasKey_def key_of_def parseVar_def TrimSpace_def is_space_def)
  have c: "opProcessCommunicator ops0 parallelsTemplate ''parallels-iso'' (Settings parallelsBuilder)
        [''type'' \<mapsto> IString ''parallels-iso'']
      = Inr ([], [''type'' \<mapsto> IString ''parallels-iso''])"
    by (simp add: ops0_def)
  have m0: "[''type'' \<mapsto> IString ''parallels-iso''] ''http_directory'' = None"
    by simp
  obtain m where
    ev: "createParallelsISO ops0 parallelsTemplate ''parallels-iso'' = Inr m"
    and ty: "m ''type'' = Some (IString ''parallels-iso'')"
    and url: "m ''iso_url'' = Some (IString ''http://example.org/my.iso'')"
  proof -
    have "\<exists>m. createParallelsISO ops0 parallelsTemplate ''parallels-iso'' = Inr m
        \<and> m ''type'' = Some (IString ''parallels-iso'')
        \<and> m ''iso_url'' = Some (IString ''http://example.org/my.iso'')"
      by (simp add: createParallelsISO_def parallelsTemplate_def parallelsBuilder_def
          ubuntuTemplate_def workSlice_def ops0_def prlisoKey_def prlString_def prlInt_def
          prlisoArray_def prlArray_def prlisoBootCommand_def parseVar_def TrimSpace_def
          is_space_def stringIsCommandFilename_def Let_def)
    with that show ?thesis by blast
  qed
  from createParallelsISO_no_http_directory [OF b w k c m0 ev]
  have "m ''http_directory'' = None" .
  with b w k c ev ty url show ?thesis by blast
qed

end
